theory Spec2Isabelle
  imports Complex_Main "HOL-Library.Word"
begin

unbundle bit_operations_syntax

section \<open>Strings and numbers of the JavaScript source\<close>

text \<open>
  A JavaScript string is a sequence of UTF-16 code units. The hash function reads code
  units (\<open>charCodeAt\<close>), so it is modelled on \<open>16 word list\<close>; every other string of the
  launcher is text built from literals of the source and is modelled as a HOL \<open>string\<close>,
  whose characters are the code units below 256.
\<close>

type_synonym js_string = "16 word list"

definition js_of :: "string \<Rightarrow> js_string" where
  "js_of s = map (\<lambda>c. of_nat (of_char c)) s"

text \<open>
  \<open>ToInt32\<close> of the language definition: the value modulo \<open>2 ^ 32\<close>, read as two's
  complement. It is what \<open>hash & hash\<close> computes, and what \<open><<\<close> applies to its left
  operand before shifting.
\<close>

definition toInt32 :: "int \<Rightarrow> int" where
  "toInt32 x = sint (word_of_int x :: 32 word)"

definition shiftLeft32 :: "int \<Rightarrow> nat \<Rightarrow> int" where
  "shiftLeft32 x n = sint (push_bit (n mod 32) (word_of_int x :: 32 word))"

text \<open>
  \<open>Number.prototype.toString(radix)\<close> on an integer value: the digits of the magnitude,
  most significant first, in lower case, after a minus sign when the value is negative.
  In radix 10 this is also what a template literal prints for an integer of magnitude
  below \<open>10 ^ 21\<close>.
\<close>

definition digitChar :: "int \<Rightarrow> char" where
  "digitChar d = ''0123456789abcdefghijklmnopqrstuvwxyz'' ! nat (d mod 36)"

function toDigits :: "int \<Rightarrow> int \<Rightarrow> string" where
  "toDigits b n =
     (if b < 2 \<or> n < b then [digitChar n]
      else toDigits b (n div b) @ [digitChar (n mod b)])"
  by pat_completeness auto
termination
proof (relation "measure (\<lambda>(b, n). nat n)")
  show "wf (measure (\<lambda>(b :: int, n :: int). nat n))"
    by simp
next
  fix b n :: int
  assume a: "\<not> (b < 2 \<or> n < b)"
  then have "n div b < n"
    by (intro int_div_less_self) auto
  with a show "((b, n div b), (b, n)) \<in> measure (\<lambda>(b, n). nat n)"
    by simp
qed

declare toDigits.simps [simp del]

definition toStringRadix :: "int \<Rightarrow> int \<Rightarrow> string" where
  "toStringRadix b x =
     (if x < 0 then CHR ''-'' # toDigits b (- x) else toDigits b x)"

definition numToString :: "int \<Rightarrow> string" where
  "numToString x = toStringRadix 10 x"

definition isHexDigit :: "char \<Rightarrow> bool" where
  "isHexDigit c = (c \<in> set ''0123456789abcdef'')"

section \<open>utils.js\<close>

subsection \<open>hashString\<close>

text \<open>
  \<^verbatim>\<open>
  static hashString(str) {
      let hash = 0;
      if (str.length === 0) return hash;
      for (let i = 0; i < str.length; i++) {
          const char = str.charCodeAt(i);
          hash = ((hash << 5) - hash) + char;
          hash = hash & hash; // Convert to 32-bit integer
      }
      return Math.abs(hash);
  }
  \<close>
  The subtraction and the addition are on numbers (no wrap-around, the operands are far
  below \<open>2 ^ 53\<close>); only \<open><<\<close> and \<open>&\<close> go through 32 bits. \<open>Math.abs\<close> is on numbers
  too, so the absolute value of \<open>- 2 ^ 31\<close> is \<open>2 ^ 31\<close>.
\<close>

fun hashString_loop :: "int \<Rightarrow> js_string \<Rightarrow> int" where
  "hashString_loop hash [] = hash"
| "hashString_loop hash (c # cs) =
     hashString_loop (toInt32 ((shiftLeft32 hash 5 - hash) + uint c)) cs"

definition hashString :: "js_string \<Rightarrow> int" where
  "hashString str = (if length str = 0 then 0 else \<bar>hashString_loop 0 str\<bar>)"

section \<open>versions.js\<close>

text \<open>
  A thrown \<open>Error\<close> carries its message; a \<open>TypeError\<close> is what the engine throws when a
  property of \<open>null\<close> is read (its message is the engine's own). An \<open>async\<close> function
  returns a promise that is either rejected with the error (\<open>Inl\<close>) or fulfilled with the
  value (\<open>Inr\<close>).
\<close>

datatype js_error = Error string | TypeError

record version =
  version_id :: string
  version_type :: string
  version_url :: string
  version_time :: string
  version_releaseTime :: string
  version_sha1 :: string
  version_complianceLevel :: int

record artifact =
  artifact_path :: string
  artifact_sha1 :: string
  artifact_size :: int
  artifact_url :: string

text \<open>
  A library is \<open>{name, downloads: {artifact: {...}}}\<close>. The code guards every use with
  \<open>lib.downloads && lib.downloads.artifact\<close>; the option is \<open>None\<close> when that guard fails.
\<close>

record library =
  library_name :: string
  library_downloads_artifact :: "artifact option"

record client_download =
  client_sha1 :: string
  client_size :: int
  client_url :: string

record asset_index =
  assetIndex_id :: string
  assetIndex_sha1 :: string
  assetIndex_size :: int
  assetIndex_totalSize :: int
  assetIndex_url :: string

record java_version =
  javaVersion_component :: string
  javaVersion_majorVersion :: int

text \<open>
  An entry of \<open>arguments.game\<close> (the new format) is a string or a rule object; only the
  strings are used. \<open>getVersionDetails\<close> builds no \<open>arguments\<close> property.
\<close>

datatype game_arg = ArgString string | ArgObject

record version_details =
  details_id :: string
  details_type :: string
  details_mainClass :: string
  details_minecraftArguments :: string
  details_arguments_game :: "game_arg list option"
  details_libraries :: "library list"
  details_downloads_client :: client_download
  details_assetIndex :: asset_index
  details_javaVersion :: java_version

record version_manager =
  versions :: "version list"
  installedVersions :: "string set"

definition mkVersion :: "string \<Rightarrow> string \<Rightarrow> string \<Rightarrow> string \<Rightarrow> string \<Rightarrow> int \<Rightarrow> version" where
  "mkVersion i ty t rt sha cl =
     \<lparr>version_id = i, version_type = ty,
      version_url = ''https://piston-meta.mojang.com/v1/packages/'' @ i @ ''.json'',
      version_time = t, version_releaseTime = rt, version_sha1 = sha,
      version_complianceLevel = cl\<rparr>"

definition getMockVersions :: "version list" where
  "getMockVersions =
     [mkVersion ''1.21.1'' ''release'' ''2024-08-08T11:22:58+00:00'' ''2024-08-08T11:10:48+00:00'' ''abc123'' 1,
      mkVersion ''1.21'' ''release'' ''2024-06-13T08:24:05+00:00'' ''2024-06-13T08:24:05+00:00'' ''def456'' 1,
      mkVersion ''24w21b'' ''snapshot'' ''2024-05-24T12:15:32+00:00'' ''2024-05-24T12:15:32+00:00'' ''ghi789'' 1,
      mkVersion ''1.20.6'' ''release'' ''2024-04-29T14:11:07+00:00'' ''2024-04-29T14:11:07+00:00'' ''jkl012'' 1,
      mkVersion ''1.20.4'' ''release'' ''2023-12-07T12:56:18+00:00'' ''2023-12-07T12:56:18+00:00'' ''mno345'' 1,
      mkVersion ''1.19.4'' ''release'' ''2023-03-14T12:56:18+00:00'' ''2023-03-14T12:56:18+00:00'' ''pqr678'' 1,
      mkVersion ''1.18.2'' ''release'' ''2022-02-28T10:21:28+00:00'' ''2022-02-28T10:21:28+00:00'' ''stu901'' 1,
      mkVersion ''1.16.5'' ''release'' ''2021-01-15T16:05:32+00:00'' ''2021-01-15T16:05:32+00:00'' ''vwx234'' 0,
      mkVersion ''1.12.2'' ''release'' ''2017-09-18T08:39:46+00:00'' ''2017-09-18T08:39:46+00:00'' ''yz0567'' 0,
      mkVersion ''1.8.9'' ''release'' ''2015-12-09T09:24:23+00:00'' ''2015-12-09T09:24:23+00:00'' ''abc890'' 0]"

definition getVersionById :: "version_manager \<Rightarrow> string \<Rightarrow> version option" where
  "getVersionById vm i = find (\<lambda>v. version_id v = i) (versions vm)"

definition isVersionInstalled :: "version_manager \<Rightarrow> string \<Rightarrow> bool" where
  "isVersionInstalled vm versionId = (versionId \<in> installedVersions vm)"

definition markVersionInstalled :: "version_manager \<Rightarrow> string \<Rightarrow> version_manager" where
  "markVersionInstalled vm versionId =
     vm\<lparr>installedVersions := insert versionId (installedVersions vm)\<rparr>"

definition startsWith :: "string \<Rightarrow> string \<Rightarrow> bool" where
  "startsWith s p = (take (length p) s = p)"

text \<open>
  The lookup tables are object literals read with \<open>table[key] || default\<close>, association
  lists here. The table of version sizes is read with an identifier of the catalog, a
  version number. The table of loader sizes is read with the caller's string, and there
  the names that every object literal inherits from \<open>Object.prototype\<close> matter: see
  \<open>getModLoaderSize\<close>.
\<close>

definition lookupOr :: "(string \<times> 'a) list \<Rightarrow> 'a \<Rightarrow> string \<Rightarrow> 'a" where
  "lookupOr table d k = (case map_of table k of None \<Rightarrow> d | Some v \<Rightarrow> v)"

definition getVersionSize :: "string \<Rightarrow> int" where
  "getVersionSize versionId =
     lookupOr [(''1.21.1'', 25678901), (''1.21'', 25456789), (''1.20.6'', 24123456),
               (''1.20.4'', 23987654), (''1.19.4'', 22345678), (''1.18.2'', 21098765),
               (''1.16.5'', 18765432), (''1.12.2'', 15432109), (''1.8.9'', 12345678)]
              20000000 versionId"

definition getAssetIndex :: "string \<Rightarrow> string" where
  "getAssetIndex versionId =
     (if startsWith versionId ''1.21'' then ''8''
      else if startsWith versionId ''1.20'' then ''7''
      else if startsWith versionId ''1.19'' then ''6''
      else if startsWith versionId ''1.18'' then ''5''
      else if startsWith versionId ''1.16'' then ''4''
      else if startsWith versionId ''1.12'' then ''1.12''
      else if startsWith versionId ''1.8'' then ''1.8''
      else ''legacy'')"

definition getJavaVersion :: "string \<Rightarrow> string" where
  "getJavaVersion versionId =
     (if startsWith versionId ''1.21'' \<or> startsWith versionId ''1.20'' then ''java-runtime-delta''
      else if startsWith versionId ''1.19'' \<or> startsWith versionId ''1.18'' then ''java-runtime-beta''
      else if startsWith versionId ''1.17'' \<or> startsWith versionId ''1.16'' then ''java-runtime-alpha''
      else ''jre-legacy'')"

definition getJavaMajorVersion :: "string \<Rightarrow> int" where
  "getJavaMajorVersion versionId =
     (if startsWith versionId ''1.21'' \<or> startsWith versionId ''1.20'' then 21
      else if startsWith versionId ''1.19'' \<or> startsWith versionId ''1.18''
              \<or> startsWith versionId ''1.17'' then 17
      else if startsWith versionId ''1.16'' then 8
      else 8)"

definition baseLibraries :: "string list" where
  "baseLibraries =
     [''com.mojang:logging:1.0.0'', ''com.mojang:blocklist:1.0.10'',
      ''com.mojang:datafixerupper:6.0.8'', ''com.google.guava:guava:32.1.2-jre'',
      ''commons-io:commons-io:2.11.0'', ''commons-codec:commons-codec:1.15'',
      ''net.java.dev.jna:jna:5.12.1'', ''net.java.dev.jna:jna-platform:5.12.1'',
      ''org.lwjgl:lwjgl:3.3.1'', ''org.lwjgl:lwjgl-jemalloc:3.3.1'',
      ''org.lwjgl:lwjgl-openal:3.3.1'', ''org.lwjgl:lwjgl-opengl:3.3.1'',
      ''org.lwjgl:lwjgl-glfw:3.3.1'', ''org.lwjgl:lwjgl-stb:3.3.1'']"

text \<open>\<open>lib.replace(/:/g, '/')\<close>: the global flag replaces every colon.\<close>

definition replaceColons :: "string \<Rightarrow> string" where
  "replaceColons lib = map (\<lambda>c. if c = CHR '':'' then CHR ''/'' else c) lib"

text \<open>
  \<^verbatim>\<open>
  return baseLibraries.map(lib => ({
      name: lib,
      downloads: { artifact: {
          path: lib.replace(/:/g, '/') + '.jar',
          sha1: Utils.hashString(lib + versionId).toString(16),
          size: Math.floor(Math.random() * 1000000) + 50000,
          url: `https://libraries.minecraft.net/${lib.replace(/:/g, '/')}.jar` } }
  }));
  \<close>
  \<open>Math.random\<close> is the only input of the resolver besides the catalog. It is a
  parameter: \<open>random i\<close> is the number that the \<open>i\<close>-th call of \<open>Math.random\<close> made by
  this resolution returns, a number with \<open>0 \<le> random i < 1\<close>, read as an exact
  rational. \<open>map\<close> visits the libraries in order, so library \<open>i\<close> takes draw \<open>i\<close>.
\<close>

definition mockLibrary :: "string \<Rightarrow> rat \<Rightarrow> string \<Rightarrow> library" where
  "mockLibrary versionId r lib =
     \<lparr>library_name = lib,
      library_downloads_artifact = Some
        \<lparr>artifact_path = replaceColons lib @ ''.jar'',
         artifact_sha1 = toStringRadix 16 (hashString (js_of (lib @ versionId))),
         artifact_size = \<lfloor>r * 1000000\<rfloor> + 50000,
         artifact_url = ''https://libraries.minecraft.net/'' @ replaceColons lib @ ''.jar''\<rparr>\<rparr>"

definition getMockLibraries :: "(nat \<Rightarrow> rat) \<Rightarrow> string \<Rightarrow> library list" where
  "getMockLibraries random versionId =
     map (\<lambda>(i, lib). mockLibrary versionId (random i) lib) (enumerate 0 baseLibraries)"

definition getVersionDetails ::
  "version_manager \<Rightarrow> (nat \<Rightarrow> rat) \<Rightarrow> string \<Rightarrow> js_error + version_details" where
  "getVersionDetails vm random versionId =
     (case getVersionById vm versionId of
        None \<Rightarrow> Inl (Error (''Version '' @ versionId @ '' not found''))
      | Some v \<Rightarrow> Inr
          \<lparr>details_id = version_id v,
           details_type = version_type v,
           details_mainClass = ''net.minecraft.client.main.Main'',
           details_minecraftArguments = ''--username ${auth_player_name} --version ${version_name} --gameDir ${game_directory} --assetsDir ${assets_root} --assetIndex ${assets_index_name} --uuid ${auth_uuid} --accessToken ${auth_access_token} --userType ${user_type} --versionType ${version_type}'',
           details_arguments_game = None,
           details_libraries = getMockLibraries random (version_id v),
           details_downloads_client =
             \<lparr>client_sha1 = version_sha1 v,
              client_size = getVersionSize (version_id v),
              client_url = ''https://piston-data.mojang.com/v1/objects/'' @ version_sha1 v @ ''/client.jar''\<rparr>,
           details_assetIndex =
             \<lparr>assetIndex_id = getAssetIndex (version_id v),
              assetIndex_sha1 = ''asset_'' @ version_sha1 v,
              assetIndex_size = 123456,
              assetIndex_totalSize = 234567890,
              assetIndex_url = ''https://piston-meta.mojang.com/v1/packages/assets/'' @ getAssetIndex (version_id v) @ ''.json''\<rparr>,
           details_javaVersion =
             \<lparr>javaVersion_component = getJavaVersion (version_id v),
              javaVersion_majorVersion = getJavaMajorVersion (version_id v)\<rparr>\<rparr>)"

text \<open>
  \<^verbatim>\<open>
  getModLoaderSize(modLoader) {
      const sizes = { forge: 15000000, fabric: 5000000, optifine: 8000000 };
      return sizes[modLoader] || 0;
  }
  \<close>
  \<open>sizes[modLoader]\<close> also finds the properties that the object literal inherits from
  \<open>Object.prototype\<close>: for these names it is a function (for \<open>__proto__\<close> the prototype
  object), which is truthy, and \<open>getModLoaderSize\<close> returns it instead of a number.
\<close>

definition objectPrototypeNames :: "string list" where
  "objectPrototypeNames =
     [''constructor'', ''__defineGetter__'', ''__defineSetter__'', ''hasOwnProperty'',
      ''__lookupGetter__'', ''__lookupSetter__'', ''isPrototypeOf'', ''propertyIsEnumerable'',
      ''toString'', ''valueOf'', ''__proto__'', ''toLocaleString'']"

datatype loader_size = LoaderSize int | InheritedProperty string

definition loaderTableSize :: "string \<Rightarrow> int" where
  "loaderTableSize modLoader =
     lookupOr [(''forge'', 15000000), (''fabric'', 5000000), (''optifine'', 8000000)] 0 modLoader"

definition getModLoaderSize :: "string \<Rightarrow> loader_size" where
  "getModLoaderSize modLoader =
     (if modLoader \<in> set objectPrototypeNames then InheritedProperty modLoader
      else LoaderSize (loaderTableSize modLoader))"

text \<open>
  \<^verbatim>\<open>
  async calculateDownloadSize(versionId, modLoader = null) {
      const versionDetails = await this.getVersionDetails(versionId);
      let totalSize = versionDetails.downloads.client.size;
      versionDetails.libraries.forEach(lib => {
          if (lib.downloads && lib.downloads.artifact) {
              totalSize += lib.downloads.artifact.size;
          }
      });
      totalSize += versionDetails.assetIndex.totalSize;
      if (modLoader) {
          totalSize += this.getModLoaderSize(modLoader);
      }
      return totalSize;
  }
  \<close>
  The loader is \<open>null\<close> (\<open>None\<close>) or a string; the empty string is falsy as \<open>null\<close> is.
  \<open>+=\<close> adds two numbers, and concatenates when the right operand is a function or an
  object: the total is then a string, the decimal digits of the number so far followed by
  the text of the inherited property (\<open>TotalString\<close> keeps the number and the property's
  name; the text of a native function is the engine's own).
\<close>

datatype total_size = TotalNumber int | TotalString int string

definition truthy :: "string option \<Rightarrow> bool" where
  "truthy s = (case s of None \<Rightarrow> False | Some t \<Rightarrow> t \<noteq> [])"

definition addLibrarySize :: "int \<Rightarrow> library \<Rightarrow> int" where
  "addLibrarySize totalSize lib =
     (case library_downloads_artifact lib of
        None \<Rightarrow> totalSize
      | Some a \<Rightarrow> totalSize + artifact_size a)"

definition addLoaderSize :: "int \<Rightarrow> loader_size \<Rightarrow> total_size" where
  "addLoaderSize totalSize loaderSize =
     (case loaderSize of
        LoaderSize n \<Rightarrow> TotalNumber (totalSize + n)
      | InheritedProperty name \<Rightarrow> TotalString totalSize name)"

definition sizeOfParts :: "version_details \<Rightarrow> string option \<Rightarrow> total_size" where
  "sizeOfParts versionDetails modLoader =
     (let totalSize = client_size (details_downloads_client versionDetails);
          totalSize = foldl addLibrarySize totalSize (details_libraries versionDetails);
          totalSize = totalSize + assetIndex_totalSize (details_assetIndex versionDetails)
      in if truthy modLoader then addLoaderSize totalSize (getModLoaderSize (the modLoader))
         else TotalNumber totalSize)"

definition calculateDownloadSize ::
  "version_manager \<Rightarrow> (nat \<Rightarrow> rat) \<Rightarrow> string \<Rightarrow> string option \<Rightarrow> js_error + total_size" where
  "calculateDownloadSize vm random versionId modLoader =
     (case getVersionDetails vm random versionId of
        Inl e \<Rightarrow> Inl e
      | Inr versionDetails \<Rightarrow> Inr (sizeOfParts versionDetails modLoader))"

text \<open>
  Views of a resolved version used to state the properties: the library artifact hashes
  and sizes in manifest order, and the details with every library artifact size erased.
\<close>

definition eraseSize :: "library \<Rightarrow> library" where
  "eraseSize lib =
     lib\<lparr>library_downloads_artifact :=
           map_option (\<lambda>a. a\<lparr>artifact_size := 0\<rparr>) (library_downloads_artifact lib)\<rparr>"

definition withoutLibrarySizes :: "version_details \<Rightarrow> version_details" where
  "withoutLibrarySizes d = d\<lparr>details_libraries := map eraseSize (details_libraries d)\<rparr>"

definition librarySha1s :: "version_details \<Rightarrow> string list" where
  "librarySha1s d =
     map artifact_sha1 (List.map_filter library_downloads_artifact (details_libraries d))"

definition librarySizes :: "version_details \<Rightarrow> int list" where
  "librarySizes d =
     map artifact_size (List.map_filter library_downloads_artifact (details_libraries d))"

text \<open>The manager as the constructor leaves it, with nothing installed yet.\<close>

definition mockManager :: version_manager where
  "mockManager = \<lparr>versions = getMockVersions, installedVersions = {}\<rparr>"

section \<open>launcher.js: building the launch parameters\<close>

text \<open>
  \<open>String.prototype.split(sep)\<close> with a one-character separator: the pieces between the
  separators, empty pieces included; the empty string gives one empty piece.
\<close>

fun split :: "char \<Rightarrow> string \<Rightarrow> string list" where
  "split sep [] = [[]]"
| "split sep (c # cs) =
     (if c = sep then [] # split sep cs
      else (case split sep cs of
              [] \<Rightarrow> [[c]]
            | w # ws \<Rightarrow> (c # w) # ws))"

text \<open>
  \<open>String.prototype.trim\<close> removes white space and line terminators at both ends. Among
  the code units below 256 these are tab, line feed, vertical tab, form feed, carriage
  return, space and the no-break space.
\<close>

definition isWhiteSpace :: "char \<Rightarrow> bool" where
  "isWhiteSpace c = (of_char c \<in> {9, 10, 11, 12, 13, 32, 160 :: nat})"

definition trim :: "string \<Rightarrow> string" where
  "trim s = rev (dropWhile isWhiteSpace (rev (dropWhile isWhiteSpace s)))"

text \<open>\<open>Array.prototype.join\<close>.\<close>

fun join :: "string \<Rightarrow> string list \<Rightarrow> string" where
  "join sep [] = []"
| "join sep [x] = x"
| "join sep (x # y # ys) = x @ sep @ join sep (y # ys)"

text \<open>
  \<open>String.prototype.replace(searchString, replaceString)\<close> with a string pattern: only
  the first occurrence of the pattern is replaced, and in the replacement text \<open>$$\<close>
  stands for a dollar sign, \<open>$&\<close> for the matched text, \<open>$`\<close> for the text before the
  match and \<open>$'\<close> for the text after it (there are no captures, so every other use of
  \<open>$\<close> is literal).
\<close>

fun splitAtFirst :: "string \<Rightarrow> string \<Rightarrow> (string \<times> string) option" where
  "splitAtFirst pat [] = (if pat = [] then Some ([], []) else None)"
| "splitAtFirst pat (c # cs) =
     (if startsWith (c # cs) pat then Some ([], drop (length pat) (c # cs))
      else (case splitAtFirst pat cs of
              None \<Rightarrow> None
            | Some (preceding, following) \<Rightarrow> Some (c # preceding, following)))"

fun getSubstitution :: "string \<Rightarrow> string \<Rightarrow> string \<Rightarrow> string \<Rightarrow> string" where
  "getSubstitution matched preceding following [] = []"
| "getSubstitution matched preceding following [c] = [c]"
| "getSubstitution matched preceding following (c # d # t) =
     (if c = CHR ''$'' \<and> d = CHR ''$'' then CHR ''$'' # getSubstitution matched preceding following t
      else if c = CHR ''$'' \<and> d = CHR ''&'' then matched @ getSubstitution matched preceding following t
      else if c = CHR ''$'' \<and> d = CHR 0x60 then preceding @ getSubstitution matched preceding following t
      else if c = CHR ''$'' \<and> d = CHR 0x27 then following @ getSubstitution matched preceding following t
      else c # getSubstitution matched preceding following (d # t))"

definition replace :: "string \<Rightarrow> string \<Rightarrow> string \<Rightarrow> string" where
  "replace s pat replacement =
     (case splitAtFirst pat s of
        None \<Rightarrow> s
      | Some (preceding, following) \<Rightarrow> preceding @ getSubstitution pat preceding following replacement @ following)"

record user =
  username :: string
  uuid :: string
  accessToken :: string

record auth_manager =
  currentUser :: "user option"
  authType :: "string option"

definition isAuthenticated :: "auth_manager \<Rightarrow> bool" where
  "isAuthenticated am = (currentUser am \<noteq> None \<and> authType am \<noteq> None)"

text \<open>
  A display dimension as the launcher finds it in \<open>gameSettings\<close>. The settings form
  stores \<open>parseInt\<close> of its field, an integer or, for a field that holds no number,
  \<open>NaN\<close>; \<open>JSON.stringify\<close> writes \<open>NaN\<close> as \<open>null\<close>, so after \<open>saveSettings\<close> and
  the next \<open>loadSettings\<close> the stored \<open>NaN\<close> is \<open>null\<close>. \<open>toString()\<close> prints the
  integer, prints \<open>NaN\<close>, and throws a \<open>TypeError\<close> on \<open>null\<close>.
\<close>

datatype stored_number = Number int | NaN | Null

definition numberToString :: "stored_number \<Rightarrow> js_error + string" where
  "numberToString x =
     (case x of
        Number n \<Rightarrow> Inr (numToString n)
      | NaN \<Rightarrow> Inr ''NaN''
      | Null \<Rightarrow> Inl TypeError)"

record settings =
  ramAllocation :: int
  resolutionWidth :: stored_number
  resolutionHeight :: stored_number
  jvmArgs :: string
  closeLauncherAfterStart :: bool

record launch_params =
  params_mainClass :: string
  params_classpath :: string
  params_jvmArgs :: "string list"
  params_gameArgs :: "string list"
  params_workingDirectory :: string
  params_versionId :: string
  params_user :: user
  params_modLoader :: "string option"

definition getGameDirectory :: string where
  "getGameDirectory = ''.minecraft''"

definition getAssetsDirectory :: string where
  "getAssetsDirectory = ''.minecraft/assets''"

definition getLibrariesDirectory :: string where
  "getLibrariesDirectory = ''.minecraft/libraries''"

text \<open>
  \<open>getPathSeparator\<close> reads \<open>navigator.platform\<close>, a parameter here:
  \<open>navigator.platform.toLowerCase().includes('win') ? ';' : ':'\<close>. Platform names are
  ASCII, and \<open>toLowerCase\<close> is modelled on the ASCII letters.
\<close>

definition toLowerCase :: "string \<Rightarrow> string" where
  "toLowerCase s =
     map (\<lambda>c. if (65 :: nat) \<le> of_char c \<and> of_char c \<le> (90 :: nat)
              then char_of (of_char c + (32 :: nat)) else c) s"

definition includesStr :: "string \<Rightarrow> string \<Rightarrow> bool" where
  "includesStr s pat = (splitAtFirst pat s \<noteq> None)"

definition getPathSeparator :: "string \<Rightarrow> string" where
  "getPathSeparator platform = (if includesStr (toLowerCase platform) ''win'' then '';'' else '':'')"

text \<open>
  \<^verbatim>\<open>
  buildClasspath(versionDetails, librariesDirectory) {
      const classpath = [];
      classpath.push(`versions/${versionDetails.id}/${versionDetails.id}.jar`);
      versionDetails.libraries.forEach(library => {
          if (library.downloads && library.downloads.artifact) {
              classpath.push(`libraries/${library.downloads.artifact.path}`);
          }
      });
      return classpath.join(this.getPathSeparator());
  }
  \<close>
\<close>

definition buildClasspath :: "string \<Rightarrow> version_details \<Rightarrow> string \<Rightarrow> string" where
  "buildClasspath platform versionDetails librariesDirectory =
     join (getPathSeparator platform)
       ((''versions/'' @ details_id versionDetails @ ''/'' @ details_id versionDetails @ ''.jar'')
        # map (\<lambda>a. ''libraries/'' @ artifact_path a)
            (List.map_filter library_downloads_artifact (details_libraries versionDetails)))"

text \<open>
  \<^verbatim>\<open>
  buildJVMArguments() {
      const jvmArgs = [];
      jvmArgs.push(`-Xmx${this.gameSettings.ramAllocation}M`);
      jvmArgs.push(`-Xms${Math.min(512, this.gameSettings.ramAllocation)}M`);
      if (this.gameSettings.jvmArgs) {
          jvmArgs.push(...this.gameSettings.jvmArgs.split(' ').filter(arg => arg.trim()));
      }
      jvmArgs.push('-Djava.library.path=natives');
      jvmArgs.push('-Dminecraft.launcher.brand=CraftLauncher');
      jvmArgs.push('-Dminecraft.launcher.version=1.0.0');
      return jvmArgs;
  }
  \<close>
  The memory size is an integer here (a \<open>NaN\<close> or \<open>null\<close> in its place would be
  printed into the two flags as it is; nothing in this function throws). A string is
  truthy when it is not empty.
\<close>

definition customJVMArguments :: "settings \<Rightarrow> string list" where
  "customJVMArguments gameSettings =
     (if jvmArgs gameSettings \<noteq> []
      then filter (\<lambda>arg. trim arg \<noteq> []) (split CHR '' '' (jvmArgs gameSettings))
      else [])"

definition buildJVMArguments :: "settings \<Rightarrow> string list" where
  "buildJVMArguments gameSettings =
     [''-Xmx'' @ numToString (ramAllocation gameSettings) @ ''M'',
      ''-Xms'' @ numToString (min 512 (ramAllocation gameSettings)) @ ''M'']
     @ customJVMArguments gameSettings
     @ [''-Djava.library.path=natives'',
        ''-Dminecraft.launcher.brand=CraftLauncher'',
        ''-Dminecraft.launcher.version=1.0.0'']"

text \<open>
  \<^verbatim>\<open>
  getUserType(user) {
      const authType = window.authManager.getAuthType();
      switch (authType) {
          case 'microsoft':
          case 'mojang':
              return 'mojang';
          case 'offline':
          default:
              return 'legacy';
      }
  }
  \<close>
\<close>

definition getUserType :: "auth_manager \<Rightarrow> user \<Rightarrow> string" where
  "getUserType am u =
     (if authType am = Some ''microsoft'' \<or> authType am = Some ''mojang'' then ''mojang''
      else ''legacy'')"

text \<open>
  \<^verbatim>\<open>
  replaceArgumentVariables(arg, user, versionDetails, gameDirectory, assetsDirectory) {
      return arg
          .replace('${auth_player_name}', user.username)
          .replace('${version_name}', versionDetails.id)
          .replace('${game_directory}', gameDirectory)
          .replace('${assets_root}', assetsDirectory)
          .replace('${assets_index_name}', versionDetails.assetIndex.id)
          .replace('${auth_uuid}', user.uuid)
          .replace('${auth_access_token}', user.accessToken)
          .replace('${user_type}', this.getUserType(user))
          .replace('${version_type}', versionDetails.type)
          .replace('${launcher_name}', 'CraftLauncher')
          .replace('${launcher_version}', '1.0.0');
  }
  \<close>
\<close>

definition substitutions ::
  "auth_manager \<Rightarrow> user \<Rightarrow> version_details \<Rightarrow> string \<Rightarrow> string \<Rightarrow> (string \<times> string) list" where
  "substitutions am u versionDetails gameDirectory assetsDirectory =
     [(''${auth_player_name}'', username u),
      (''${version_name}'', details_id versionDetails),
      (''${game_directory}'', gameDirectory),
      (''${assets_root}'', assetsDirectory),
      (''${assets_index_name}'', assetIndex_id (details_assetIndex versionDetails)),
      (''${auth_uuid}'', uuid u),
      (''${auth_access_token}'', accessToken u),
      (''${user_type}'', getUserType am u),
      (''${version_type}'', details_type versionDetails),
      (''${launcher_name}'', ''CraftLauncher''),
      (''${launcher_version}'', ''1.0.0'')]"

definition replaceArgumentVariables ::
  "auth_manager \<Rightarrow> string \<Rightarrow> user \<Rightarrow> version_details \<Rightarrow> string \<Rightarrow> string \<Rightarrow> string" where
  "replaceArgumentVariables am arg u versionDetails gameDirectory assetsDirectory =
     foldl (\<lambda>a (key, val). replace a key val) arg
       (substitutions am u versionDetails gameDirectory assetsDirectory)"

text \<open>
  \<^verbatim>\<open>
  buildGameArguments(user, versionDetails, gameDirectory, assetsDirectory, serverAddress) {
      const gameArgs = [];
      if (versionDetails.minecraftArguments) {
          const args = versionDetails.minecraftArguments.split(' ');
          args.forEach(arg => {
              gameArgs.push(this.replaceArgumentVariables(arg, user, versionDetails, gameDirectory, assetsDirectory));
          });
      } else if (versionDetails.arguments && versionDetails.arguments.game) {
          versionDetails.arguments.game.forEach(arg => {
              if (typeof arg === 'string') {
                  gameArgs.push(this.replaceArgumentVariables(arg, user, versionDetails, gameDirectory, assetsDirectory));
              }
          });
      }
      gameArgs.push('--width', this.gameSettings.resolutionWidth.toString());
      gameArgs.push('--height', this.gameSettings.resolutionHeight.toString());
      if (serverAddress) {
          const [ip, port] = serverAddress.split(':');
          gameArgs.push('--server', ip);
          if (port) {
              gameArgs.push('--port', port);
          }
      }
      return gameArgs;
  }
  \<close>
\<close>

definition stringArgs :: "game_arg list \<Rightarrow> string list" where
  "stringArgs args = List.map_filter (\<lambda>a. case a of ArgString t \<Rightarrow> Some t | ArgObject \<Rightarrow> None) args"

definition templateArgs :: "version_details \<Rightarrow> string list" where
  "templateArgs versionDetails =
     (if details_minecraftArguments versionDetails \<noteq> []
      then split CHR '' '' (details_minecraftArguments versionDetails)
      else (case details_arguments_game versionDetails of
              None \<Rightarrow> []
            | Some game \<Rightarrow> stringArgs game))"

definition serverArgs :: "string option \<Rightarrow> string list" where
  "serverArgs serverAddress =
     (if truthy serverAddress
      then (case split CHR '':'' (the serverAddress) of
              [] \<Rightarrow> []
            | [ip] \<Rightarrow> [''--server'', ip]
            | ip # port # _ \<Rightarrow>
                (if port \<noteq> [] then [''--server'', ip, ''--port'', port]
                 else [''--server'', ip]))
      else [])"

definition buildGameArguments ::
  "auth_manager \<Rightarrow> settings \<Rightarrow> user \<Rightarrow> version_details \<Rightarrow> string \<Rightarrow> string
     \<Rightarrow> string option \<Rightarrow> js_error + string list" where
  "buildGameArguments am gameSettings u versionDetails gameDirectory assetsDirectory serverAddress =
     (let gameArgs =
            map (\<lambda>arg. replaceArgumentVariables am arg u versionDetails gameDirectory
                         assetsDirectory)
              (templateArgs versionDetails)
      in case numberToString (resolutionWidth gameSettings) of
           Inl e \<Rightarrow> Inl e
         | Inr width \<Rightarrow>
             (case numberToString (resolutionHeight gameSettings) of
                Inl e \<Rightarrow> Inl e
              | Inr height \<Rightarrow>
                  Inr (gameArgs @ [''--width'', width] @ [''--height'', height]
                       @ serverArgs serverAddress)))"

text \<open>
  \<^verbatim>\<open>
  async prepareLaunchParameters(user, versionDetails, modLoader, serverAddress) {
      const gameDirectory = this.getGameDirectory();
      const assetsDirectory = this.getAssetsDirectory();
      const librariesDirectory = this.getLibrariesDirectory();
      const classpath = this.buildClasspath(versionDetails, librariesDirectory);
      const jvmArgs = this.buildJVMArguments();
      const gameArgs = this.buildGameArguments(user, versionDetails, gameDirectory, assetsDirectory, serverAddress);
      return { mainClass: versionDetails.mainClass, classpath: classpath, jvmArgs: jvmArgs,
               gameArgs: gameArgs, workingDirectory: gameDirectory,
               versionId: versionDetails.id, user: user, modLoader: modLoader };
  }
  \<close>
  The function has no \<open>throw\<close> of its own and checks no setting. The one call in it
  that can throw is \<open>buildGameArguments\<close>, at \<open>toString()\<close> of a display dimension that
  is \<open>null\<close>; the promise is then rejected with that \<open>TypeError\<close>.
\<close>

definition prepareLaunchParameters ::
  "auth_manager \<Rightarrow> string \<Rightarrow> settings \<Rightarrow> user \<Rightarrow> version_details \<Rightarrow> string option
     \<Rightarrow> string option \<Rightarrow> js_error + launch_params" where
  "prepareLaunchParameters am platform gameSettings u versionDetails modLoader serverAddress =
     (let gameDirectory = getGameDirectory;
          assetsDirectory = getAssetsDirectory;
          librariesDirectory = getLibrariesDirectory;
          classpath = buildClasspath platform versionDetails librariesDirectory;
          jvmArguments = buildJVMArguments gameSettings
      in case buildGameArguments am gameSettings u versionDetails gameDirectory
                assetsDirectory serverAddress of
           Inl e \<Rightarrow> Inl e
         | Inr gameArgs \<Rightarrow>
             Inr \<lparr>params_mainClass = details_mainClass versionDetails,
                  params_classpath = classpath,
                  params_jvmArgs = jvmArguments,
                  params_gameArgs = gameArgs,
                  params_workingDirectory = gameDirectory,
                  params_versionId = details_id versionDetails,
                  params_user = u,
                  params_modLoader = modLoader\<rparr>)"

section \<open>launcher.js: launching and the launch history\<close>

record game_process =
  process_pid :: int
  process_startTime :: int
  process_version :: string
  process_user :: string

record launch_data =
  launch_versionId :: string
  launch_modLoader :: "string option"
  launch_serverAddress :: "string option"
  launch_timestamp :: int
  launch_username :: string

record history_entry =
  entry_filename :: string
  entry_size :: int
  entry_date :: string
  entry_status :: string

text \<open>
  \<open>localStorage\<close>, restricted to the two keys the history functions use. A key that was
  never written is \<open>None\<close>, and \<open>Utils.getLocalStorage(key, [])\<close> then returns the
  default \<open>[]\<close>. Writes are taken to succeed (\<open>Utils.setLocalStorage\<close> swallows a quota
  error and leaves the stored value as it was).
\<close>

record local_storage =
  craftlauncher_launch_history :: "launch_data list option"
  craftlauncher_download_history :: "history_entry list option"

record game_launcher =
  gameProcess :: "game_process option"
  launchHistory :: "launch_data list"
  gameSettings :: settings

text \<open>
  \<open>Array.prototype.splice(50)\<close> removes every element from index 50 on.
  \<^verbatim>\<open>
  addToLaunchHistory(launchData) {
      this.launchHistory.unshift(launchData);
      if (this.launchHistory.length > 50) {
          this.launchHistory.splice(50);
      }
      this.saveLaunchHistory();
  }
  \<close>
\<close>

definition keepLast50 :: "'a list \<Rightarrow> 'a list" where
  "keepLast50 history = (if length history > 50 then take 50 history else history)"

definition addToLaunchHistory ::
  "game_launcher \<times> local_storage \<Rightarrow> launch_data \<Rightarrow> game_launcher \<times> local_storage" where
  "addToLaunchHistory w launchData =
     (let history = keepLast50 (launchData # launchHistory (fst w))
      in ((fst w)\<lparr>launchHistory := history\<rparr>,
          (snd w)\<lparr>craftlauncher_launch_history := Some history\<rparr>))"

text \<open>
  \<open>simulateGameLaunch\<close> either stores a new process handle and resolves, or, with
  probability 5%, rejects before the handle is stored (the rejection timer fires within
  4000 ms, the handle is stored by the fifth tick of the 800 ms interval, which the
  rejection clears). Which one happens, with which \<open>pid\<close> and at what time, is the
  environment's choice: \<open>None\<close> for the rejection, \<open>Some (pid, startTime)\<close> otherwise.
\<close>

definition simulateGameLaunch ::
  "(int \<times> int) option \<Rightarrow> game_launcher \<Rightarrow> launch_params \<Rightarrow> (js_error + unit) \<times> game_launcher" where
  "simulateGameLaunch started gl launchParams =
     (case started of
        None \<Rightarrow> (Inl (Error ''Failed to start game process''), gl)
      | Some (pid, startTime) \<Rightarrow>
          (Inr (),
           gl\<lparr>gameProcess := Some
                \<lparr>process_pid = pid, process_startTime = startTime,
                 process_version = params_versionId launchParams,
                 process_user = username (params_user launchParams)\<rparr>\<rparr>))"

text \<open>
  What \<open>launchGame\<close> reads from outside the three managers: the draws of
  \<open>Math.random\<close> used by the resolver, \<open>navigator.platform\<close>, the outcome of the simulated
  launch and \<open>Date.now()\<close> when the history entry is written.
\<close>

record launch_env =
  env_random :: "nat \<Rightarrow> rat"
  env_platform :: string
  env_started :: "(int \<times> int) option"
  env_now :: int

text \<open>
  \<^verbatim>\<open>
  async launchGame(versionId, modLoader = null, serverAddress = null) {
      const authManager = window.authManager;
      const versionManager = window.versionManager;
      try {
          if (!authManager.isAuthenticated()) {
              throw new Error('User not authenticated');
          }
          if (!versionManager.isVersionInstalled(versionId)) {
              throw new Error(`Minecraft ${versionId} is not installed`);
          }
          const user = authManager.getCurrentUser();
          const versionDetails = await versionManager.getVersionDetails(versionId);
          const launchParams = await this.prepareLaunchParameters(user, versionDetails, modLoader, serverAddress);
          Utils.showNotification(`Launching Minecraft ${versionId}...`, 'info');
          await this.simulateGameLaunch(launchParams);
          this.addToLaunchHistory({ versionId: versionId, modLoader: modLoader,
              serverAddress: serverAddress, timestamp: Date.now(), username: user.username });
          if (this.gameSettings.closeLauncherAfterStart) {
              this.hideLauncher();
          }
          Utils.showNotification('Game launched successfully!', 'success');
          return true;
      } catch (error) {
          Utils.showNotification(`Launch failed: ${error.message}`, 'error');
          throw error;
      }
  }
  \<close>
  The \<open>catch\<close> block rethrows every error. Notifications and \<open>hideLauncher\<close> write to
  the page only and are not part of the state.
\<close>

definition launchGame ::
  "auth_manager \<Rightarrow> version_manager \<Rightarrow> launch_env \<Rightarrow> game_launcher \<times> local_storage
     \<Rightarrow> string \<Rightarrow> string option \<Rightarrow> string option
     \<Rightarrow> (js_error + bool) \<times> game_launcher \<times> local_storage" where
  "launchGame am vm env w versionId modLoader serverAddress =
     (if \<not> isAuthenticated am then (Inl (Error ''User not authenticated''), w)
      else if \<not> isVersionInstalled vm versionId
        then (Inl (Error (''Minecraft '' @ versionId @ '' is not installed'')), w)
      else
        (case currentUser am of
           None \<Rightarrow> (Inl (Error ''User not authenticated''), w)
         | Some u \<Rightarrow>
           (case getVersionDetails vm (env_random env) versionId of
              Inl e \<Rightarrow> (Inl e, w)
            | Inr versionDetails \<Rightarrow>
              (case prepareLaunchParameters am (env_platform env) (gameSettings (fst w)) u
                      versionDetails modLoader serverAddress of
                 Inl e \<Rightarrow> (Inl e, w)
               | Inr launchParams \<Rightarrow>
                 (case simulateGameLaunch (env_started env) (fst w) launchParams of
                    (Inl e, gl) \<Rightarrow> (Inl e, gl, snd w)
                  | (Inr _, gl) \<Rightarrow>
                      (Inr True,
                       addToLaunchHistory (gl, snd w)
                         \<lparr>launch_versionId = versionId, launch_modLoader = modLoader,
                          launch_serverAddress = serverAddress, launch_timestamp = env_now env,
                          launch_username = username u\<rparr>))))))"

section \<open>utils.js: retry\<close>

text \<open>
  \<^verbatim>\<open>
  static async retry(fn, maxAttempts = 3, baseDelay = 1000) {
      let lastError;
      for (let attempt = 1; attempt <= maxAttempts; attempt++) {
          try {
              return await fn();
          } catch (error) {
              lastError = error;
              if (attempt === maxAttempts) {
                  throw lastError;
              }
              const delay = baseDelay * Math.pow(2, attempt - 1);
              await this.wait(delay);
          }
      }
  }
  \<close>
  \<open>fn\<close> is an effectful callback: \<open>fn k\<close> is the outcome of the call made by attempt
  \<open>k\<close>. The result records the outcome of \<open>retry\<close> (\<open>Inr None\<close> when the loop ends
  without an attempt and the promise resolves to \<open>undefined\<close>), the number of calls of
  \<open>fn\<close>, and the delays passed to \<open>wait\<close>, in order.
\<close>

function retry_loop ::
  "(int \<Rightarrow> js_error + 'a) \<Rightarrow> int \<Rightarrow> int \<Rightarrow> int \<Rightarrow> int list
     \<Rightarrow> (js_error + 'a option) \<times> int \<times> int list" where
  "retry_loop fn maxAttempts baseDelay attempt waits =
     (if attempt \<le> maxAttempts then
        (case fn attempt of
           Inr v \<Rightarrow> (Inr (Some v), attempt, waits)
         | Inl error \<Rightarrow>
             (if attempt = maxAttempts then (Inl error, attempt, waits)
              else retry_loop fn maxAttempts baseDelay (attempt + 1)
                     (waits @ [baseDelay * 2 ^ nat (attempt - 1)])))
      else (Inr None, attempt - 1, waits))"
  by pat_completeness auto
termination
  by (relation "measure (\<lambda>(fn, maxAttempts, baseDelay, attempt, waits). nat (maxAttempts + 1 - attempt))")
     auto

declare retry_loop.simps [simp del]

definition retry ::
  "(int \<Rightarrow> js_error + 'a) \<Rightarrow> int \<Rightarrow> int \<Rightarrow> (js_error + 'a option) \<times> int \<times> int list" where
  "retry fn maxAttempts baseDelay = retry_loop fn maxAttempts baseDelay 1 []"

definition retry_outcome :: "(js_error + 'a option) \<times> int \<times> int list \<Rightarrow> js_error + 'a option" where
  "retry_outcome r = fst r"

definition retry_attempts :: "(js_error + 'a option) \<times> int \<times> int list \<Rightarrow> int" where
  "retry_attempts r = fst (snd r)"

definition retry_waits :: "(js_error + 'a option) \<times> int \<times> int list \<Rightarrow> int list" where
  "retry_waits r = snd (snd r)"

text \<open>A callback that fails on every call.\<close>

definition alwaysFails :: "int \<Rightarrow> js_error + unit" where
  "alwaysFails k = Inl (Error ''Download failed: Network error'')"

section \<open>downloader.js\<close>

text \<open>
  A download object, with the fields the properties read. \<open>simulateDownload\<close> draws the
  size, then either resolves or, with probability 5%, rejects with a network error; both
  are the transport's choice, made per URL: \<open>transport url = (size, succeeds)\<close>.
\<close>

record download =
  download_url :: string
  download_filename :: string
  download_size :: int
  download_status :: string

text \<open>
  The manager's persistent statistics, and the download objects it has created so far
  with the status each one ended in (\<open>activeDownloads\<close> holds an object only while its
  transfer runs).
\<close>

record download_manager =
  stats_totalDownloaded :: int
  stats_totalFiles :: int
  downloads :: "download list"

text \<open>
  \<^verbatim>\<open>
  async downloadFile(url, filename, options = {}) {
      const download = { id: downloadId, url: url, filename: filename, ..., status: 'pending', ...options };
      this.activeDownloads.set(downloadId, download);
      try {
          await this.simulateDownload(download);
          download.status = 'completed';
          this.downloadStats.totalFiles++;
          this.downloadStats.totalDownloaded += download.size;
          this.saveDownloadStats();
          return download;
      } catch (error) {
          download.status = 'failed';
          download.error = error.message;
          throw error;
      } finally {
          this.activeDownloads.delete(downloadId);
      }
  }
  \<close>
\<close>

definition downloadFile ::
  "download_manager \<Rightarrow> (string \<Rightarrow> int \<times> bool) \<Rightarrow> string \<Rightarrow> string
     \<Rightarrow> (js_error + download) \<times> download_manager" where
  "downloadFile dm transport url filename =
     (let d = \<lparr>download_url = url, download_filename = filename,
                download_size = fst (transport url), download_status = ''pending''\<rparr>
      in if snd (transport url)
         then (Inr (d\<lparr>download_status := ''completed''\<rparr>),
               dm\<lparr>stats_totalFiles := stats_totalFiles dm + 1,
                  stats_totalDownloaded := stats_totalDownloaded dm + download_size d,
                  downloads := downloads dm @ [d\<lparr>download_status := ''completed''\<rparr>]\<rparr>)
         else (Inl (Error ''Download failed: Network error''),
               dm\<lparr>downloads := downloads dm @ [d\<lparr>download_status := ''failed''\<rparr>]\<rparr>))"

text \<open>
  \<open>downloadAssets\<close> and \<open>downloadModLoader\<close> never reject. Each adds a fixed chunk per
  timer tick until the total is reached, and resolves then; with a positive total smaller
  than the number of chunks the chunk is 0 and the promise never settles (\<open>None\<close>).
  \<^verbatim>\<open>
  const assetInterval = setInterval(() => {
      const chunkSize = Math.floor(totalSize / 200);
      downloaded += chunkSize;
      if (onProgress) { onProgress(chunkSize); }
      if (downloaded >= totalSize) { clearInterval(assetInterval); resolve(); }
  }, 25);
  \<close>
\<close>

function chunkTicks :: "int \<Rightarrow> int \<Rightarrow> int \<Rightarrow> nat option" where
  "chunkTicks totalSize chunkSize downloaded =
     (if downloaded + chunkSize \<ge> totalSize then Some 1
      else if chunkSize \<le> 0 then None
      else map_option Suc (chunkTicks totalSize chunkSize (downloaded + chunkSize)))"
  by pat_completeness auto
termination
  by (relation "measure (\<lambda>(totalSize, chunkSize, downloaded). nat (totalSize - downloaded))")
     auto

declare chunkTicks.simps [simp del]

definition downloadAssets :: "asset_index \<Rightarrow> nat option" where
  "downloadAssets assetIndex =
     chunkTicks (assetIndex_totalSize assetIndex) (assetIndex_totalSize assetIndex div 200) 0"

text \<open>
  For a loader name inherited from \<open>Object.prototype\<close> the size is no number:
  \<open>Math.floor(modLoaderSize / 50)\<close> is \<open>NaN\<close>, so is \<open>downloaded\<close>, the comparison
  \<open>downloaded >= modLoaderSize\<close> is false at every tick and the promise never settles.
\<close>

definition downloadModLoader :: "string \<Rightarrow> string \<Rightarrow> nat option" where
  "downloadModLoader versionId modLoader =
     (case getModLoaderSize modLoader of
        LoaderSize n \<Rightarrow> chunkTicks n (n div 50) 0
      | InheritedProperty name \<Rightarrow> None)"

text \<open>
  \<^verbatim>\<open>
  for (const library of versionDetails.libraries) {
      if (library.downloads && library.downloads.artifact) {
          await this.downloadFile(library.downloads.artifact.url,
                                  library.downloads.artifact.path, {...});
          ...
      }
  }
  \<close>
  An \<open>await\<close> of a rejected promise throws, which leaves the loop.
\<close>

fun downloadLibraries ::
  "(string \<Rightarrow> int \<times> bool) \<Rightarrow> library list \<Rightarrow> download_manager
     \<Rightarrow> (js_error + unit) \<times> download_manager" where
  "downloadLibraries transport [] dm = (Inr (), dm)"
| "downloadLibraries transport (lib # libs) dm =
     (case library_downloads_artifact lib of
        None \<Rightarrow> downloadLibraries transport libs dm
      | Some a \<Rightarrow>
          (case downloadFile dm transport (artifact_url a) (artifact_path a) of
             (Inl e, dm') \<Rightarrow> (Inl e, dm')
           | (Inr _, dm') \<Rightarrow> downloadLibraries transport libs dm'))"

text \<open>
  \<^verbatim>\<open>
  async downloadVersion(versionId, modLoader = null, onProgress = null) {
      const versionDetails = await versionManager.getVersionDetails(versionId);
      ...
      try {
          const clientDownload = await this.downloadFile(
              versionDetails.downloads.client.url, `${versionId}.jar`, {...});
          ...
          for (const library of versionDetails.libraries) { ... }
          await this.downloadAssets(versionDetails.assetIndex, ...);
          if (modLoader) {
              await this.downloadModLoader(versionId, modLoader, ...);
          }
          versionManager.markVersionInstalled(versionId);
          return true;
      } catch (error) {
          Utils.showNotification(`Download failed: ${error.message}`, 'error');
          throw error;
      }
  }
  \<close>
  The progress figures passed to \<open>onProgress\<close> are not part of the result. The outcome is
  \<open>None\<close> when the promise never settles.
\<close>

definition finishDownload ::
  "version_details \<Rightarrow> download_manager \<Rightarrow> version_manager \<Rightarrow> string \<Rightarrow> string option
     \<Rightarrow> (js_error + bool) option \<times> download_manager \<times> version_manager" where
  "finishDownload versionDetails dm vm versionId modLoader =
     (case downloadAssets (details_assetIndex versionDetails) of
        None \<Rightarrow> (None, dm, vm)
      | Some _ \<Rightarrow>
          (if truthy modLoader
           then (case downloadModLoader versionId (the modLoader) of
                   None \<Rightarrow> (None, dm, vm)
                 | Some _ \<Rightarrow> (Some (Inr True), dm, markVersionInstalled vm versionId))
           else (Some (Inr True), dm, markVersionInstalled vm versionId)))"

definition downloadVersion ::
  "download_manager \<Rightarrow> version_manager \<Rightarrow> (string \<Rightarrow> int \<times> bool) \<Rightarrow> (nat \<Rightarrow> rat)
     \<Rightarrow> string \<Rightarrow> string option
     \<Rightarrow> (js_error + bool) option \<times> download_manager \<times> version_manager" where
  "downloadVersion dm vm transport random versionId modLoader =
     (case getVersionDetails vm random versionId of
        Inl e \<Rightarrow> (Some (Inl e), dm, vm)
      | Inr versionDetails \<Rightarrow>
          (case downloadFile dm transport
                  (client_url (details_downloads_client versionDetails)) (versionId @ ''.jar'') of
             (Inl e, dm1) \<Rightarrow> (Some (Inl e), dm1, vm)
           | (Inr _, dm1) \<Rightarrow>
               (case downloadLibraries transport (details_libraries versionDetails) dm1 of
                  (Inl e, dm2) \<Rightarrow> (Some (Inl e), dm2, vm)
                | (Inr _, dm2) \<Rightarrow> finishDownload versionDetails dm2 vm versionId modLoader)))"

text \<open>
  \<^verbatim>\<open>
  getDownloadHistory() {
      return Utils.getLocalStorage('craftlauncher_download_history', []);
  }
  addToHistory(download) {
      const history = this.getDownloadHistory();
      history.unshift({ filename: download.filename, size: download.size,
                        date: new Date().toISOString(), status: download.status });
      if (history.length > 50) {
          history.splice(50);
      }
      Utils.setLocalStorage('craftlauncher_download_history', history);
  }
  \<close>
  The date string of the moment of the call is a parameter.
\<close>

definition getDownloadHistory :: "local_storage \<Rightarrow> history_entry list" where
  "getDownloadHistory storage =
     (case craftlauncher_download_history storage of None \<Rightarrow> [] | Some history \<Rightarrow> history)"

definition historyEntry :: "download \<Rightarrow> string \<Rightarrow> history_entry" where
  "historyEntry d date =
     \<lparr>entry_filename = download_filename d, entry_size = download_size d,
      entry_date = date, entry_status = download_status d\<rparr>"

definition addToHistory :: "local_storage \<Rightarrow> download \<Rightarrow> string \<Rightarrow> local_storage" where
  "addToHistory storage d date =
     storage\<lparr>craftlauncher_download_history :=
       Some (keepLast50 (historyEntry d date # getDownloadHistory storage))\<rparr>"

text \<open>
  The artifacts that \<open>downloadVersion\<close> transfers through \<open>downloadFile\<close>, as (URL, file
  name) pairs in the order of the manifest: the client binary, then the libraries.
\<close>

definition transferList :: "string \<Rightarrow> version_details \<Rightarrow> (string \<times> string) list" where
  "transferList versionId versionDetails =
     (client_url (details_downloads_client versionDetails), versionId @ ''.jar'')
     # map (\<lambda>a. (artifact_url a, artifact_path a))
         (List.map_filter library_downloads_artifact (details_libraries versionDetails))"

definition finishedDownload :: "(string \<Rightarrow> int \<times> bool) \<Rightarrow> string \<Rightarrow> string \<times> string \<Rightarrow> download" where
  "finishedDownload transport status x =
     \<lparr>download_url = fst x, download_filename = snd x,
      download_size = fst (transport (fst x)), download_status = status\<rparr>"

section \<open>Statements of the specification, and example inputs\<close>

text \<open>
  Splitting on white space as the specification words it: the maximal runs of characters
  that are not white space.
\<close>

fun splitWhere :: "(char \<Rightarrow> bool) \<Rightarrow> string \<Rightarrow> string list" where
  "splitWhere P [] = [[]]"
| "splitWhere P (c # cs) =
     (if P c then [] # splitWhere P cs
      else (case splitWhere P cs of
              [] \<Rightarrow> [[c]]
            | w # ws \<Rightarrow> (c # w) # ws))"

definition whitespaceWords :: "string \<Rightarrow> string list" where
  "whitespaceWords s = filter (\<lambda>w. w \<noteq> []) (splitWhere isWhiteSpace s)"

text \<open>
  Example inputs: a user signed in offline, nobody signed in, the settings the
  constructor of \<open>GameLauncher\<close> sets, a launcher that has launched nothing yet, settings
  whose free-form flags hold a tab, settings whose numeric fields are not positive, the
  settings as they are reloaded after the width field was cleared, and the details of
  version 1.20.4 as resolved when every draw is 0.
\<close>

definition steve :: user where
  "steve = \<lparr>username = ''Steve'', uuid = ''u-1'', accessToken = ''token-1''\<rparr>"

definition offlineSteve :: auth_manager where
  "offlineSteve = \<lparr>currentUser = Some steve, authType = Some ''offline''\<rparr>"

definition loggedOut :: auth_manager where
  "loggedOut = \<lparr>currentUser = None, authType = None\<rparr>"

definition defaultSettings :: settings where
  "defaultSettings =
     \<lparr>ramAllocation = 2048, resolutionWidth = Number 1280, resolutionHeight = Number 720,
      jvmArgs = ''-XX:+UseG1GC -XX:+UnlockExperimentalVMOptions'',
      closeLauncherAfterStart = False\<rparr>"

definition freshLauncher :: "game_launcher \<times> local_storage" where
  "freshLauncher =
     (\<lparr>gameProcess = None, launchHistory = [], gameSettings = defaultSettings\<rparr>,
      \<lparr>craftlauncher_launch_history = None, craftlauncher_download_history = None\<rparr>)"

definition quietEnv :: launch_env where
  "quietEnv = \<lparr>env_random = (\<lambda>_. 0), env_platform = ''Linux x86_64'',
               env_started = Some (4242, 1700000000000), env_now = 1700000004000\<rparr>"

definition tabSettings :: settings where
  "tabSettings = defaultSettings\<lparr>ramAllocation := 1024, jvmArgs := [CHR ''a'', CHR 0x09, CHR ''b'']\<rparr>"

definition zeroSettings :: settings where
  "zeroSettings =
     \<lparr>ramAllocation = 0, resolutionWidth = Number (- 1), resolutionHeight = Number 0,
      jvmArgs = [],
      closeLauncherAfterStart = False\<rparr>"

definition clearedSettings :: settings where
  "clearedSettings = defaultSettings\<lparr>resolutionWidth := Null\<rparr>"

definition demoDetails :: version_details where
  "demoDetails = projr (getVersionDetails mockManager (\<lambda>_. 0) ''1.20.4'')"

text \<open>
  The delay that \<open>retry\<close> waits after a failed attempt, the state of the download manager
  after a list of transfers has completed, and a transport that fails for exactly one URL,
  the first library of the manifest, with the manager and the transfers of version 1.20.4
  it is tried on.
\<close>

definition backoff :: "int \<Rightarrow> int \<Rightarrow> int" where
  "backoff baseDelay attempt = baseDelay * 2 ^ nat (attempt - 1)"

definition failingTransport :: "string \<Rightarrow> int \<times> bool" where
  "failingTransport url =
     (1000000, url \<noteq> ''https://libraries.minecraft.net/com.mojang/logging/1.0.0.jar'')"

definition clientTransfer :: "string \<times> string" where
  "clientTransfer =
     (''https://piston-data.mojang.com/v1/objects/mno345/client.jar'', ''1.20.4.jar'')"

definition loggingTransfer :: "string \<times> string" where
  "loggingTransfer =
     (''https://libraries.minecraft.net/com.mojang/logging/1.0.0.jar'',
      ''com.mojang/logging/1.0.0.jar'')"

definition otherTransfers :: "(string \<times> string) list" where
  "otherTransfers =
     map (\<lambda>lib. (''https://libraries.minecraft.net/'' @ replaceColons lib @ ''.jar'',
                   replaceColons lib @ ''.jar'')) (tl baseLibraries)"

definition freshManager :: download_manager where
  "freshManager = \<lparr>stats_totalDownloaded = 0, stats_totalFiles = 0, downloads = []\<rparr>"

definition afterTransfers ::
  "(string \<Rightarrow> int \<times> bool) \<Rightarrow> download_manager \<Rightarrow> (string \<times> string) list \<Rightarrow> download_manager" where
  "afterTransfers transport dm done =
     dm\<lparr>stats_totalFiles := stats_totalFiles dm + int (length done),
        stats_totalDownloaded :=
          stats_totalDownloaded dm + sum_list (map (\<lambda>y. fst (transport (fst y))) done),
        downloads := downloads dm @ map (finishedDownload transport ''completed'') done\<rparr>"

definition artifactTransfer :: "artifact \<Rightarrow> string \<times> string" where
  "artifactTransfer a = (artifact_url a, artifact_path a)"

section \<open>Properties\<close>

lemma toInt32_range: "- (2 ^ 31) \<le> toInt32 x \<and> toInt32 x < 2 ^ 31"
proof -
  have "- (2 ^ (LENGTH(32) - 1)) \<le> sint (word_of_int x :: 32 word)"
    by (rule sint_ge)
  moreover have "sint (word_of_int x :: 32 word) < 2 ^ (LENGTH(32) - 1)"
    by (rule sint_lt)
  ultimately show ?thesis by (simp add: toInt32_def)
qed

lemma hashString_loop_range:
  "- (2 ^ 31) \<le> h \<Longrightarrow> h < 2 ^ 31 \<Longrightarrow>
   - (2 ^ 31) \<le> hashString_loop h s \<and> hashString_loop h s < 2 ^ 31"
proof (induction s arbitrary: h)
  case Nil
  then show ?case by simp
next
  case (Cons c cs)
  show ?case
    using Cons.IH [of "toInt32 ((shiftLeft32 h 5 - h) + uint c)"] toInt32_range
    by simp
qed

lemma toDigits_hex: "0 \<le> n \<Longrightarrow> list_all isHexDigit (toDigits 16 n)"
proof (induction "16 :: int" n rule: toDigits.induct)
  case (1 n)
  have d: "isHexDigit (digitChar k)" if "0 \<le> k" "k < 16" for k
  proof -
    from that have "k \<in> {0, 1, 2, 3, 4, 5, 6, 7, 8, 9, 10, 11, 12, 13, 14, 15}"
      by (simp only: insert_iff empty_iff) arith
    then show ?thesis
      by (auto simp: digitChar_def isHexDigit_def)
  qed
  show ?case
  proof (cases "n < 16")
    case True
    with "1.prems" show ?thesis by (subst toDigits.simps) (simp add: d)
  next
    case False
    with "1.prems" have "list_all isHexDigit (toDigits 16 (n div 16))"
      by (intro "1.hyps") simp_all
    moreover have "isHexDigit (digitChar (n mod 16))"
      by (rule d) simp_all
    ultimately show ?thesis
      using False by (subst toDigits.simps) simp
  qed
qed

lemma toDigits_nonempty: "toDigits b n \<noteq> []"
  by (subst toDigits.simps) simp

text \<open>
  C10. \<open>Utils.hashString\<close> is total and returns a number that is never negative: 0 for the
  empty string, otherwise the absolute value of the 32-bit accumulated hash, hence at most
  \<open>2 ^ 31\<close>. Its \<open>toString(16)\<close>, the mock integrity hash of a library, is therefore a
  non-empty string of lower-case hexadecimal digits with no sign.
\<close>

theorem hashString_nonneg:
  "0 \<le> hashString str \<and> hashString str \<le> 2 ^ 31 \<and> hashString [] = 0
   \<and> toStringRadix 16 (hashString str) \<noteq> []
   \<and> list_all isHexDigit (toStringRadix 16 (hashString str))"
proof -
  have r: "- (2 ^ 31) \<le> hashString_loop 0 str \<and> hashString_loop 0 str < 2 ^ 31"
    by (rule hashString_loop_range) simp_all
  have nonneg: "0 \<le> hashString str"
    by (simp add: hashString_def)
  have upper: "hashString str \<le> 2 ^ 31"
    using r by (simp add: hashString_def abs_le_iff)
  have empty: "hashString [] = 0"
    by (simp add: hashString_def)
  have hex: "toStringRadix 16 (hashString str) = toDigits 16 (hashString str)"
    using nonneg by (simp add: toStringRadix_def)
  show ?thesis
    using nonneg upper empty by (simp add: hex toDigits_hex toDigits_nonempty)
qed

lemma foldl_addLibrarySize:
  "foldl addLibrarySize t libs =
     t + sum_list (map artifact_size (List.map_filter library_downloads_artifact libs))"
  by (induction libs arbitrary: t)
     (simp_all add: addLibrarySize_def List.map_filter_simps split: option.splits)

lemma getVersionDetails_known:
  "getVersionById vm versionId = Some v \<Longrightarrow>
   \<exists>d. getVersionDetails vm random versionId = Inr d
       \<and> details_libraries d = getMockLibraries random (version_id v)
       \<and> client_size (details_downloads_client d) = getVersionSize (version_id v)
       \<and> assetIndex_totalSize (details_assetIndex d) = 234567890"
  by (simp add: getVersionDetails_def)

lemma eraseSize_mockLibrary:
  "eraseSize (mockLibrary versionId r lib) = eraseSize (mockLibrary versionId r' lib)"
  by (simp add: eraseSize_def mockLibrary_def)

lemma map_eraseSize_getMockLibraries:
  "map eraseSize (getMockLibraries random1 versionId) =
   map eraseSize (getMockLibraries random2 versionId)"
  unfolding getMockLibraries_def map_map
  by (rule map_cong) (auto simp: eraseSize_mockLibrary)

lemma mockLibrary_cong:
  "\<lfloor>r * 1000000\<rfloor> = \<lfloor>r' * 1000000\<rfloor> \<Longrightarrow>
   mockLibrary versionId r lib = mockLibrary versionId r' lib"
  by (simp only: mockLibrary_def)

lemma mockLibrary_size_range:
  "0 \<le> r \<Longrightarrow> r < 1 \<Longrightarrow>
   library_downloads_artifact (mockLibrary versionId r lib) = Some a \<Longrightarrow>
   50000 \<le> artifact_size a \<and> artifact_size a \<le> 1049999"
proof -
  assume r: "0 \<le> r" "r < 1" and a: "library_downloads_artifact (mockLibrary versionId r lib) = Some a"
  from r have "0 \<le> \<lfloor>r * 1000000\<rfloor>"
    by simp
  moreover from r have "r * 1000000 < 1000000"
    by simp
  then have "\<lfloor>r * 1000000\<rfloor> < 1000000"
    by (simp add: floor_less_iff)
  moreover from a have "artifact_size a = \<lfloor>r * 1000000\<rfloor> + 50000"
    by (auto simp: mockLibrary_def)
  ultimately show ?thesis
    by simp
qed

lemma getMockLibraries_cong:
  assumes "\<forall>i < length baseLibraries. \<lfloor>random1 i * 1000000\<rfloor> = \<lfloor>random2 i * 1000000\<rfloor>"
  shows "getMockLibraries random1 versionId = getMockLibraries random2 versionId"
  unfolding getMockLibraries_def
proof (rule map_cong)
  show "enumerate 0 baseLibraries = enumerate 0 baseLibraries" ..
next
  fix p assume "p \<in> set (enumerate 0 baseLibraries)"
  then have "fst p < length baseLibraries"
    by (simp add: in_set_enumerate_eq)
  moreover obtain i lib where p: "p = (i, lib)"
    by (cases p)
  ultimately have i: "i < length baseLibraries"
    by simp
  from assms i have "\<lfloor>random1 i * 1000000\<rfloor> = \<lfloor>random2 i * 1000000\<rfloor>"
    by blast
  then have "mockLibrary versionId (random1 i) lib = mockLibrary versionId (random2 i) lib"
    by (rule mockLibrary_cong)
  then show "(case p of (i, lib) \<Rightarrow> mockLibrary versionId (random1 i) lib) =
             (case p of (i, lib) \<Rightarrow> mockLibrary versionId (random2 i) lib)"
    by (simp only: p prod.case)
qed

lemma map_filter_all_Some:
  "\<forall>x \<in> set xs. g (f x) \<noteq> None \<Longrightarrow> List.map_filter g (map f xs) = map (the \<circ> g \<circ> f) xs"
  by (induction xs) (auto simp: List.map_filter_simps)

lemma artifacts_getMockLibraries:
  "List.map_filter library_downloads_artifact (getMockLibraries random versionId)
   = map (the \<circ> library_downloads_artifact \<circ> (\<lambda>(i, lib). mockLibrary versionId (random i) lib))
       (enumerate 0 baseLibraries)"
  unfolding getMockLibraries_def
  by (rule map_filter_all_Some) (auto simp: mockLibrary_def)

lemma librarySizes_getVersionDetails:
  assumes "getVersionDetails vm random versionId = Inr d"
  shows "librarySizes d = map (\<lambda>i. \<lfloor>random i * 1000000\<rfloor> + 50000) [0..<length baseLibraries]"
proof (cases "getVersionById vm versionId")
  case None
  with assms show ?thesis
    by (simp add: getVersionDetails_def)
next
  case (Some v)
  with assms have d: "details_libraries d = getMockLibraries random (version_id v)"
    by (auto simp: getVersionDetails_def)
  have "librarySizes d = map (\<lambda>p. \<lfloor>random (fst p) * 1000000\<rfloor> + 50000) (enumerate 0 baseLibraries)"
    by (simp add: librarySizes_def d artifacts_getMockLibraries mockLibrary_def case_prod_beta
        comp_def)
  also have "\<dots> = map (\<lambda>i. \<lfloor>random i * 1000000\<rfloor> + 50000) (map fst (enumerate 0 baseLibraries))"
    by (simp only: map_map comp_def)
  finally show ?thesis
    by (simp only: map_fst_enumerate add_0)
qed

text \<open>
  C1 (amended). For every \<open>versionId\<close> present in the catalog, two calls of
  \<open>getVersionDetails\<close> on the same catalog both succeed and return results that are
  identical in every field, the library artifact hashes included, except the library
  artifact sizes: each size is \<open>Math.floor(Math.random() * 1000000) + 50000\<close>, drawn
  anew by each call. The two results are identical when the draws of the two calls give
  the same sizes.
\<close>

theorem getVersionDetails_deterministic_except_sizes:
  "getVersionById vm versionId \<noteq> None \<Longrightarrow>
   \<exists>d1 d2. getVersionDetails vm random1 versionId = Inr d1
        \<and> getVersionDetails vm random2 versionId = Inr d2
        \<and> withoutLibrarySizes d1 = withoutLibrarySizes d2
        \<and> librarySha1s d1 = librarySha1s d2
        \<and> (librarySizes d1 = librarySizes d2 \<longrightarrow> d1 = d2)"
proof -
  assume "getVersionById vm versionId \<noteq> None"
  then obtain v where v: "getVersionById vm versionId = Some v" by auto
  let ?d1 = "projr (getVersionDetails vm random1 versionId)"
  let ?d2 = "projr (getVersionDetails vm random2 versionId)"
  have 1: "getVersionDetails vm random1 versionId = Inr ?d1"
    and 2: "getVersionDetails vm random2 versionId = Inr ?d2"
    using v by (simp_all add: getVersionDetails_def)
  have e: "withoutLibrarySizes ?d1 = withoutLibrarySizes ?d2"
    using v by (simp add: getVersionDetails_def withoutLibrarySizes_def
        map_eraseSize_getMockLibraries [of random1 _ random2])
  have s: "librarySha1s d = librarySha1s (withoutLibrarySizes d)" for d
  proof -
    have "map artifact_sha1 (List.map_filter library_downloads_artifact (map eraseSize ls))
        = map artifact_sha1 (List.map_filter library_downloads_artifact ls)" for ls
      by (induction ls)
         (auto simp: eraseSize_def List.map_filter_simps split: option.splits)
    then show ?thesis by (simp add: librarySha1s_def withoutLibrarySizes_def)
  qed
  have h: "librarySha1s ?d1 = librarySha1s ?d2"
    using e s by metis
  have c: "?d1 = ?d2" if sizes: "librarySizes ?d1 = librarySizes ?d2"
  proof -
    from sizes have "map (\<lambda>i. \<lfloor>random1 i * 1000000\<rfloor> + 50000) [0..<length baseLibraries]
        = map (\<lambda>i. \<lfloor>random2 i * 1000000\<rfloor> + 50000) [0..<length baseLibraries]"
      by (simp only: librarySizes_getVersionDetails [OF 1] librarySizes_getVersionDetails [OF 2])
    then have "\<forall>i < length baseLibraries. \<lfloor>random1 i * 1000000\<rfloor> = \<lfloor>random2 i * 1000000\<rfloor>"
      by (simp add: map_eq_conv)
    from getMockLibraries_cong [OF this] v show ?thesis
      by (simp add: getVersionDetails_def)
  qed
  from 1 2 e h c show ?thesis by blast
qed

lemma hd_getMockLibraries:
  "hd (getMockLibraries random versionId) = mockLibrary versionId (random 0) ''com.mojang:logging:1.0.0''"
  by (simp add: getMockLibraries_def baseLibraries_def)

text \<open>
  As stated, with identical sizes, determinism fails: the same catalog and the same
  version, resolved under two different sequences of draws.
\<close>

theorem getVersionDetails_deterministic_counterexample:
  "getVersionById mockManager ''1.20.4'' \<noteq> None
   \<and> getVersionDetails mockManager (\<lambda>_. 0) ''1.20.4'' \<noteq> getVersionDetails mockManager (\<lambda>_. 1 / 2) ''1.20.4''"
proof -
  have v: "getVersionById mockManager ''1.20.4'' = Some (mkVersion ''1.20.4'' ''release'' ''2023-12-07T12:56:18+00:00'' ''2023-12-07T12:56:18+00:00'' ''mno345'' 1)"
    by (simp add: getVersionById_def mockManager_def getMockVersions_def mkVersion_def)
  have l: "map_option artifact_size (library_downloads_artifact (hd (details_libraries (projr (getVersionDetails mockManager r ''1.20.4'')))))
      = Some (\<lfloor>r 0 * 1000000\<rfloor> + 50000)" for r
    by (simp add: getVersionDetails_def v hd_getMockLibraries mockLibrary_def)
  have "getVersionDetails mockManager (\<lambda>_. 0) ''1.20.4'' \<noteq> getVersionDetails mockManager (\<lambda>_. 1 / 2) ''1.20.4''"
  proof
    assume "getVersionDetails mockManager (\<lambda>_. 0) ''1.20.4'' = getVersionDetails mockManager (\<lambda>_. 1 / 2) ''1.20.4''"
    then have "Some (\<lfloor>(0::rat) * 1000000\<rfloor> + 50000) = Some (\<lfloor>(1 / 2 :: rat) * 1000000\<rfloor> + 50000)"
      using l [of "\<lambda>_. 0"] l [of "\<lambda>_. 1 / 2"] by simp
    then show False by simp
  qed
  with v show ?thesis by simp
qed

theorem getVersionDetails_deterministic_witness:
  "getVersionById mockManager ''1.20.4'' \<noteq> None
   \<and> (\<exists>d1 d2. getVersionDetails mockManager (\<lambda>_. 0) ''1.20.4'' = Inr d1
        \<and> getVersionDetails mockManager (\<lambda>_. 1 / 4000000) ''1.20.4'' = Inr d2
        \<and> withoutLibrarySizes d1 = withoutLibrarySizes d2
        \<and> librarySha1s d1 = librarySha1s d2
        \<and> d1 = d2)"
proof -
  have h: "getVersionById mockManager ''1.20.4'' \<noteq> None"
    by (simp add: getVersionById_def mockManager_def getMockVersions_def mkVersion_def)
  have f: "\<lfloor>1 / 4 :: rat\<rfloor> = 0"
    by (simp add: floor_eq_iff)
  from getVersionDetails_deterministic_except_sizes [OF h, of "\<lambda>_. 0" "\<lambda>_. 1 / 4000000"]
  obtain d1 d2 where 1: "getVersionDetails mockManager (\<lambda>_. 0) ''1.20.4'' = Inr d1"
    and 2: "getVersionDetails mockManager (\<lambda>_. 1 / 4000000) ''1.20.4'' = Inr d2"
    and e: "withoutLibrarySizes d1 = withoutLibrarySizes d2" "librarySha1s d1 = librarySha1s d2"
    and c: "librarySizes d1 = librarySizes d2 \<longrightarrow> d1 = d2"
    by blast
  have "librarySizes d1 = librarySizes d2"
    by (simp add: librarySizes_getVersionDetails [OF 1] librarySizes_getVersionDetails [OF 2] f)
  with c have "d1 = d2"
    by simp
  with h 1 2 e show ?thesis
    by blast
qed

lemma sizeOfParts_sum:
  "\<forall>m. modLoader = Some m \<longrightarrow> m \<notin> set objectPrototypeNames \<Longrightarrow>
   sizeOfParts d modLoader =
     TotalNumber
       (client_size (details_downloads_client d) + sum_list (librarySizes d)
        + assetIndex_totalSize (details_assetIndex d)
        + (case modLoader of None \<Rightarrow> 0 | Some m \<Rightarrow> loaderTableSize m))"
  by (cases modLoader)
     (auto simp: sizeOfParts_def truthy_def foldl_addLibrarySize librarySizes_def
        getModLoaderSize_def addLoaderSize_def loaderTableSize_def lookupOr_def Let_def)


lemma calculateDownloadSize_sum_of_parts:
  "getVersionById vm versionId \<noteq> None \<Longrightarrow>
   \<forall>m. modLoader = Some m \<longrightarrow> m \<notin> set objectPrototypeNames \<Longrightarrow>
   \<exists>d. getVersionDetails vm random versionId = Inr d
     \<and> calculateDownloadSize vm random versionId modLoader =
         Inr (TotalNumber
           (client_size (details_downloads_client d) + sum_list (librarySizes d)
            + assetIndex_totalSize (details_assetIndex d)
            + (case modLoader of None \<Rightarrow> 0 | Some m \<Rightarrow> loaderTableSize m)))"
proof -
  assume "getVersionById vm versionId \<noteq> None"
    and own: "\<forall>m. modLoader = Some m \<longrightarrow> m \<notin> set objectPrototypeNames"
  then obtain v where v: "getVersionById vm versionId = Some v"
    by auto
  then obtain d where d: "getVersionDetails vm random versionId = Inr d"
    using getVersionDetails_known by blast
  then have "calculateDownloadSize vm random versionId modLoader = Inr (sizeOfParts d modLoader)"
    by (simp add: calculateDownloadSize_def)
  with d show ?thesis
    by (simp only: sizeOfParts_sum [OF own]) blast
qed

lemma demoDetails_resolved: "getVersionDetails mockManager (\<lambda>_. 0) ''1.20.4'' = Inr demoDetails"
proof -
  have "getVersionById mockManager ''1.20.4'' \<noteq> None"
    by (simp add: getVersionById_def mockManager_def getMockVersions_def mkVersion_def)
  then show ?thesis
    by (auto simp: demoDetails_def getVersionDetails_def)
qed



lemma replaceArgumentVariables_unrecognized:
  "\<forall>key \<in> fst ` set (substitutions am u versionDetails gameDirectory assetsDirectory).
      splitAtFirst key arg = None \<Longrightarrow>
   replaceArgumentVariables am arg u versionDetails gameDirectory assetsDirectory = arg"
  by (simp add: replaceArgumentVariables_def substitutions_def replace_def)

lemma replaceArgumentVariables_single_placeholder:
  "replaceArgumentVariables am ''${auth_player_name}'' steve versionDetails gameDirectory
     assetsDirectory = ''Steve''
   \<and> replaceArgumentVariables am ''${auth_uuid}'' steve versionDetails gameDirectory
     assetsDirectory = ''u-1''
   \<and> replaceArgumentVariables am ''--username'' steve versionDetails gameDirectory
     assetsDirectory = ''--username''"
  by (simp add: replaceArgumentVariables_def substitutions_def replace_def startsWith_def steve_def)

text \<open>
  C2. Argument substitution is to replace every occurrence of each recognised placeholder.
  \<open>String.prototype.replace\<close> with a string pattern replaces the first occurrence only: in
  a token that holds the player-name placeholder twice, the second occurrence is left in
  the argument.
\<close>

theorem replaceArgumentVariables_first_occurrence_only:
  "replaceArgumentVariables am ''${auth_player_name}:${auth_player_name}'' steve versionDetails
     gameDirectory assetsDirectory = ''Steve:${auth_player_name}''"
  by (simp add: replaceArgumentVariables_def substitutions_def replace_def startsWith_def steve_def)

lemma split_nonempty: "split sep s \<noteq> []"
  by (induction s) (auto split: list.splits)

lemma splitWhere_split:
  "\<forall>c \<in> set s. P c \<longleftrightarrow> c = sep \<Longrightarrow> splitWhere P s = split sep s"
  by (induction s) auto

lemma split_pieces:
  "w \<in> set (split sep s) \<Longrightarrow> sep \<notin> set w \<and> set w \<subseteq> set s"
proof (induction s arbitrary: w)
  case Nil
  then show ?case by simp
next
  case (Cons c cs)
  show ?case
  proof (cases "c = sep")
    case True
    with Cons show ?thesis by auto
  next
    case False
    obtain v vs where v: "split sep cs = v # vs"
      using split_nonempty [of sep cs] by (cases "split sep cs") auto
    with False Cons.prems have "w = c # v \<or> w \<in> set vs"
      by auto
    then show ?thesis
    proof
      assume "w = c # v"
      with False Cons.IH [of v] v show ?thesis by auto
    next
      assume "w \<in> set vs"
      with Cons.IH [of w] v show ?thesis by auto
    qed
  qed
qed

lemma trim_no_whitespace: "\<forall>c \<in> set w. \<not> isWhiteSpace c \<Longrightarrow> trim w = w"
proof -
  assume a: "\<forall>c \<in> set w. \<not> isWhiteSpace c"
  have d: "dropWhile isWhiteSpace v = v" if "\<forall>c \<in> set v. \<not> isWhiteSpace c" for v
    using that by (cases v) auto
  from a have "dropWhile isWhiteSpace w = w"
    by (rule d)
  moreover from a have "dropWhile isWhiteSpace (rev w) = rev w"
    by (intro d) simp
  ultimately show ?thesis
    by (simp add: trim_def)
qed

lemma isWhiteSpace_space: "isWhiteSpace CHR '' ''"
  by (simp add: isWhiteSpace_def)

lemma customJVMArguments_words:
  assumes "\<forall>c \<in> set (jvmArgs gs). isWhiteSpace c \<longrightarrow> c = CHR '' ''"
  shows "customJVMArguments gs = whitespaceWords (jvmArgs gs)"
proof -
  let ?s = "jvmArgs gs"
  have agree: "\<forall>c \<in> set ?s. isWhiteSpace c \<longleftrightarrow> c = CHR '' ''"
    using assms isWhiteSpace_space by auto
  have pieces: "trim w = w" if "w \<in> set (split CHR '' '' ?s)" for w
  proof (rule trim_no_whitespace)
    from that have "CHR '' '' \<notin> set w" and "set w \<subseteq> set ?s"
      using split_pieces by blast+
    with assms show "\<forall>c \<in> set w. \<not> isWhiteSpace c"
      by blast
  qed
  have "filter (\<lambda>arg. trim arg \<noteq> []) (split CHR '' '' ?s)
        = filter (\<lambda>w. w \<noteq> []) (split CHR '' '' ?s)"
    by (rule filter_cong) (simp_all add: pieces)
  also have "\<dots> = whitespaceWords ?s"
    by (simp add: whitespaceWords_def splitWhere_split [OF agree])
  finally have "filter (\<lambda>arg. trim arg \<noteq> []) (split CHR '' '' ?s) = whitespaceWords ?s" .
  moreover have "whitespaceWords [] = []"
    by (simp add: whitespaceWords_def)
  ultimately show ?thesis
    by (simp add: customJVMArguments_def)
qed

lemma customJVMArguments_filter:
  "customJVMArguments gs = filter (\<lambda>arg. trim arg \<noteq> []) (split CHR '' '' (jvmArgs gs))"
  by (simp add: customJVMArguments_def trim_def)

lemma numToString_1024: "numToString 1024 = ''1024''"
  by code_simp

lemma numToString_512: "numToString 512 = ''512''"
  by code_simp

lemma numToString_256: "numToString 256 = ''256''"
  by code_simp

text \<open>
  C4 (amended). For every settings record the JVM argument list starts with the
  maximum-memory flag \<open>-Xmx<ramAllocation>M\<close> followed by the minimum-memory flag
  \<open>-Xms<min(512, ramAllocation)>M\<close> (\<open>-Xmx1024M\<close>, \<open>-Xms512M\<close> for 1024 and
  \<open>-Xms256M\<close> for 256); then come the user-supplied flags, split at every space character,
  without the pieces that are empty or white space only; then the three fixed launcher
  flags. Splitting at spaces is splitting on white space whenever the flags hold no white
  space other than spaces.
\<close>

theorem buildJVMArguments_layout:
  "buildJVMArguments gs =
     [''-Xmx'' @ numToString (ramAllocation gs) @ ''M'',
      ''-Xms'' @ numToString (min 512 (ramAllocation gs)) @ ''M'']
     @ filter (\<lambda>arg. trim arg \<noteq> []) (split CHR '' '' (jvmArgs gs))
     @ [''-Djava.library.path=natives'', ''-Dminecraft.launcher.brand=CraftLauncher'',
        ''-Dminecraft.launcher.version=1.0.0'']
   \<and> take 2 (buildJVMArguments (gs\<lparr>ramAllocation := 1024\<rparr>)) = [''-Xmx1024M'', ''-Xms512M'']
   \<and> take 2 (buildJVMArguments (gs\<lparr>ramAllocation := 256\<rparr>)) = [''-Xmx256M'', ''-Xms256M'']
   \<and> ((\<forall>c \<in> set (jvmArgs gs). isWhiteSpace c \<longrightarrow> c = CHR '' '') \<longrightarrow>
        filter (\<lambda>arg. trim arg \<noteq> []) (split CHR '' '' (jvmArgs gs)) = whitespaceWords (jvmArgs gs))"
proof -
  have 1: "buildJVMArguments gs =
     [''-Xmx'' @ numToString (ramAllocation gs) @ ''M'',
      ''-Xms'' @ numToString (min 512 (ramAllocation gs)) @ ''M'']
     @ filter (\<lambda>arg. trim arg \<noteq> []) (split CHR '' '' (jvmArgs gs))
     @ [''-Djava.library.path=natives'', ''-Dminecraft.launcher.brand=CraftLauncher'',
        ''-Dminecraft.launcher.version=1.0.0'']"
    by (simp add: buildJVMArguments_def customJVMArguments_filter)
  have 2: "take 2 (buildJVMArguments (gs\<lparr>ramAllocation := 1024\<rparr>)) = [''-Xmx1024M'', ''-Xms512M'']"
    by (simp add: buildJVMArguments_def numToString_1024 numToString_512)
  have 3: "take 2 (buildJVMArguments (gs\<lparr>ramAllocation := 256\<rparr>)) = [''-Xmx256M'', ''-Xms256M'']"
    by (simp add: buildJVMArguments_def numToString_256)
  have 4: "(\<forall>c \<in> set (jvmArgs gs). isWhiteSpace c \<longrightarrow> c = CHR '' '') \<longrightarrow>
        filter (\<lambda>arg. trim arg \<noteq> []) (split CHR '' '' (jvmArgs gs)) = whitespaceWords (jvmArgs gs)"
    using customJVMArguments_words [of gs] by (simp add: customJVMArguments_filter)
  from 1 2 3 4 show ?thesis by blast
qed


theorem buildJVMArguments_layout_witness:
  "list_all (\<lambda>c. isWhiteSpace c \<longrightarrow> c = CHR '' '') (jvmArgs defaultSettings)
   \<and> filter (\<lambda>arg. trim arg \<noteq> []) (split CHR '' '' (jvmArgs defaultSettings))
       = whitespaceWords (jvmArgs defaultSettings)
   \<and> take 2 (buildJVMArguments (defaultSettings\<lparr>ramAllocation := 1024\<rparr>)) = [''-Xmx1024M'', ''-Xms512M'']"
proof -
  have h: "\<forall>c \<in> set (jvmArgs defaultSettings). isWhiteSpace c \<longrightarrow> c = CHR '' ''"
    by (simp add: defaultSettings_def isWhiteSpace_def)
  show ?thesis
    using h buildJVMArguments_layout [of defaultSettings] by (simp add: list_all_iff)
qed

lemma numToString_0: "numToString 0 = ''0''"
  by code_simp

lemma numToString_minus_1: "numToString (- 1) = ''-1''"
  by code_simp

text \<open>
  A tab inside the free-form flags does not separate two flags: the code passes
  \<open>a<TAB>b\<close> on as one flag, where splitting on white space gives \<open>a\<close> and \<open>b\<close>.
\<close>

theorem buildJVMArguments_whitespace_counterexample:
  "buildJVMArguments tabSettings =
     [''-Xmx1024M'', ''-Xms512M'', [CHR ''a'', CHR 0x09, CHR ''b''],
      ''-Djava.library.path=natives'', ''-Dminecraft.launcher.brand=CraftLauncher'',
      ''-Dminecraft.launcher.version=1.0.0'']
   \<and> whitespaceWords (jvmArgs tabSettings) = [''a'', ''b'']
   \<and> buildJVMArguments tabSettings \<noteq>
     [''-Xmx1024M'', ''-Xms512M''] @ whitespaceWords (jvmArgs tabSettings)
     @ [''-Djava.library.path=natives'', ''-Dminecraft.launcher.brand=CraftLauncher'',
        ''-Dminecraft.launcher.version=1.0.0'']"
proof -
  have w: "whitespaceWords (jvmArgs tabSettings) = [''a'', ''b'']"
    by (simp add: whitespaceWords_def tabSettings_def isWhiteSpace_def)
  have c: "customJVMArguments tabSettings = [[CHR ''a'', CHR 0x09, CHR ''b'']]"
    by (simp add: customJVMArguments_def tabSettings_def trim_def isWhiteSpace_def)
  have b: "buildJVMArguments tabSettings =
     [''-Xmx1024M'', ''-Xms512M'', [CHR ''a'', CHR 0x09, CHR ''b''],
      ''-Djava.library.path=natives'', ''-Dminecraft.launcher.brand=CraftLauncher'',
      ''-Dminecraft.launcher.version=1.0.0'']"
    by (simp add: buildJVMArguments_def c) (simp add: tabSettings_def numToString_1024 numToString_512)
  show ?thesis
    by (simp add: b w)
qed

lemma buildGameArguments_cases:
  "buildGameArguments am gs u d gameDirectory assetsDirectory serverAddress =
     (case numberToString (resolutionWidth gs) of
        Inl e \<Rightarrow> Inl e
      | Inr width \<Rightarrow>
          (case numberToString (resolutionHeight gs) of
             Inl e \<Rightarrow> Inl e
           | Inr height \<Rightarrow>
               Inr (map (\<lambda>arg. replaceArgumentVariables am arg u d gameDirectory assetsDirectory)
                      (templateArgs d)
                    @ [''--width'', width, ''--height'', height] @ serverArgs serverAddress)))"
  by (simp add: buildGameArguments_def Let_def split: sum.splits)

lemma numberToString_fails: "isl (numberToString x) \<longleftrightarrow> x = Null"
  by (cases x) (simp_all add: numberToString_def)

lemma numberToString_Null: "numberToString Null = Inl TypeError"
  by (simp add: numberToString_def)

text \<open>
  C5 (amended). Building the launch parameters validates no numeric setting, and no
  \<open>InvalidSettings\<close> error exists: for every settings record whose display width and
  height are integers, the non-positive ones included (and with any integer memory
  size), \<open>prepareLaunchParameters\<close> returns a launch invocation in which the numeric
  settings appear as they are: the memory flags are \<open>-Xmx<ramAllocation>M\<close> and
  \<open>-Xms<min(512, ramAllocation)>M\<close>, and the game arguments carry \<open>--width\<close> and
  \<open>--height\<close> with the configured values. The build fails exactly when the stored width
  or height is \<open>null\<close> (a cleared field after save and reload), with the \<open>TypeError\<close> of
  \<open>null.toString()\<close>.
\<close>

theorem prepareLaunchParameters_no_validation:
  "(resolutionWidth gs = Number w \<and> resolutionHeight gs = Number h \<longrightarrow>
      (\<exists>p. prepareLaunchParameters am platform gs u d modLoader serverAddress = Inr p
         \<and> params_jvmArgs p = buildJVMArguments gs
         \<and> take 2 (params_jvmArgs p) =
             [''-Xmx'' @ numToString (ramAllocation gs) @ ''M'',
              ''-Xms'' @ numToString (min 512 (ramAllocation gs)) @ ''M'']
         \<and> params_gameArgs p =
             map (\<lambda>arg. replaceArgumentVariables am arg u d getGameDirectory getAssetsDirectory)
               (templateArgs d)
             @ [''--width'', numToString w, ''--height'', numToString h]
             @ serverArgs serverAddress))
   \<and> (resolutionWidth gs = Null \<or> resolutionHeight gs = Null \<longrightarrow>
        prepareLaunchParameters am platform gs u d modLoader serverAddress = Inl TypeError)
   \<and> (isl (prepareLaunchParameters am platform gs u d modLoader serverAddress)
        \<longleftrightarrow> resolutionWidth gs = Null \<or> resolutionHeight gs = Null)"
proof -
  have ints: "\<exists>p. prepareLaunchParameters am platform gs u d modLoader serverAddress = Inr p
         \<and> params_jvmArgs p = buildJVMArguments gs
         \<and> take 2 (params_jvmArgs p) =
             [''-Xmx'' @ numToString (ramAllocation gs) @ ''M'',
              ''-Xms'' @ numToString (min 512 (ramAllocation gs)) @ ''M'']
         \<and> params_gameArgs p =
             map (\<lambda>arg. replaceArgumentVariables am arg u d getGameDirectory getAssetsDirectory)
               (templateArgs d)
             @ [''--width'', numToString w, ''--height'', numToString h]
             @ serverArgs serverAddress"
    if "resolutionWidth gs = Number w" "resolutionHeight gs = Number h"
    using that
    by (simp add: prepareLaunchParameters_def buildGameArguments_cases numberToString_def
        buildJVMArguments_def Let_def)
  have null: "prepareLaunchParameters am platform gs u d modLoader serverAddress = Inl TypeError"
    if "resolutionWidth gs = Null \<or> resolutionHeight gs = Null"
    using that
    by (cases "resolutionWidth gs")
       (auto simp: prepareLaunchParameters_def buildGameArguments_cases numberToString_def Let_def)
  have iff: "isl (prepareLaunchParameters am platform gs u d modLoader serverAddress)
        \<longleftrightarrow> resolutionWidth gs = Null \<or> resolutionHeight gs = Null"
    by (cases "resolutionWidth gs"; cases "resolutionHeight gs")
       (simp_all add: prepareLaunchParameters_def buildGameArguments_cases numberToString_def
          Let_def)
  from ints null iff show ?thesis
    by blast
qed

theorem prepareLaunchParameters_no_validation_witness:
  "resolutionWidth zeroSettings = Number (- 1) \<and> resolutionHeight zeroSettings = Number 0
   \<and> \<not> isl (prepareLaunchParameters offlineSteve ''Linux x86_64'' zeroSettings steve demoDetails
          None None)
   \<and> params_gameArgs (projr (prepareLaunchParameters offlineSteve ''Linux x86_64'' zeroSettings
        steve demoDetails None None)) =
       map (\<lambda>arg. replaceArgumentVariables offlineSteve arg steve demoDetails getGameDirectory
                    getAssetsDirectory)
         (templateArgs demoDetails)
       @ [''--width'', ''-1'', ''--height'', ''0''] @ serverArgs None
   \<and> resolutionWidth clearedSettings = Null
   \<and> prepareLaunchParameters offlineSteve ''Linux x86_64'' clearedSettings steve demoDetails
        None None = Inl TypeError"
proof -
  have z: "resolutionWidth zeroSettings = Number (- 1)" "resolutionHeight zeroSettings = Number 0"
    by (simp_all add: zeroSettings_def)
  have c: "resolutionWidth clearedSettings = Null"
    by (simp add: clearedSettings_def)
  from z prepareLaunchParameters_no_validation
    [of zeroSettings "- 1" 0 offlineSteve "''Linux x86_64''" steve demoDetails None None]
  obtain p where p: "prepareLaunchParameters offlineSteve ''Linux x86_64'' zeroSettings steve
        demoDetails None None = Inr p"
    and g: "params_gameArgs p =
       map (\<lambda>arg. replaceArgumentVariables offlineSteve arg steve demoDetails getGameDirectory
                    getAssetsDirectory)
         (templateArgs demoDetails)
       @ [''--width'', numToString (- 1), ''--height'', numToString 0] @ serverArgs None"
    by blast
  from c prepareLaunchParameters_no_validation
    [of clearedSettings "- 1" 0 offlineSteve "''Linux x86_64''" steve demoDetails None None]
  have n: "prepareLaunchParameters offlineSteve ''Linux x86_64'' clearedSettings steve demoDetails
        None None = Inl TypeError"
    by blast
  from z c p g n show ?thesis
    by (simp add: numToString_0 numToString_minus_1)
qed

text \<open>
  With memory 0, width -1 and height 0 the build still returns an invocation, with the
  flags \<open>-Xmx0M\<close> and \<open>-Xms0M\<close>.
\<close>

theorem prepareLaunchParameters_invalid_settings_counterexample:
  "ramAllocation zeroSettings \<le> 0 \<and> resolutionWidth zeroSettings = Number (- 1)
   \<and> resolutionHeight zeroSettings = Number 0
   \<and> getVersionDetails mockManager (\<lambda>_. 0) ''1.20.4'' = Inr demoDetails
   \<and> \<not> isl (prepareLaunchParameters offlineSteve ''Linux x86_64'' zeroSettings steve demoDetails None None)
   \<and> params_jvmArgs (projr (prepareLaunchParameters offlineSteve ''Linux x86_64'' zeroSettings
         steve demoDetails None None)) =
       [''-Xmx0M'', ''-Xms0M'', ''-Djava.library.path=natives'',
        ''-Dminecraft.launcher.brand=CraftLauncher'', ''-Dminecraft.launcher.version=1.0.0'']"
proof -
  have v: "getVersionById mockManager ''1.20.4'' \<noteq> None"
    by (simp add: getVersionById_def mockManager_def getMockVersions_def mkVersion_def)
  have d: "getVersionDetails mockManager (\<lambda>_. 0) ''1.20.4'' = Inr demoDetails"
    using v by (auto simp: demoDetails_def getVersionDetails_def)
  have j: "buildJVMArguments zeroSettings =
       [''-Xmx0M'', ''-Xms0M'', ''-Djava.library.path=natives'',
        ''-Dminecraft.launcher.brand=CraftLauncher'', ''-Dminecraft.launcher.version=1.0.0'']"
    by (simp add: buildJVMArguments_def customJVMArguments_def zeroSettings_def numToString_0)
  have z: "resolutionWidth zeroSettings = Number (- 1)" "resolutionHeight zeroSettings = Number 0"
    "ramAllocation zeroSettings = 0"
    by (simp_all add: zeroSettings_def)
  have "prepareLaunchParameters offlineSteve ''Linux x86_64'' zeroSettings steve demoDetails None None
        = Inr (projr (prepareLaunchParameters offlineSteve ''Linux x86_64'' zeroSettings steve
                 demoDetails None None))
     \<and> params_jvmArgs (projr (prepareLaunchParameters offlineSteve ''Linux x86_64'' zeroSettings
         steve demoDetails None None)) = buildJVMArguments zeroSettings"
    by (simp add: prepareLaunchParameters_def buildGameArguments_cases numberToString_def z
        Let_def)
  with d z j show ?thesis
    by (metis isl_def Inl_Inr_False order_refl)
qed

lemma keepLast50_take: "keepLast50 h = take 50 h"
  by (simp add: keepLast50_def)

text \<open>
  C8. The launch history and the download history are bounded to the 50 most recent
  entries: whatever the history was, the new entry is placed first, the entries beyond
  the first 50 (the oldest) are dropped, and the resulting list is never longer than 50.
\<close>

theorem history_bounded_50:
  "launchHistory (fst (addToLaunchHistory (gl, st) e)) = take 50 (e # launchHistory gl)
   \<and> hd (launchHistory (fst (addToLaunchHistory (gl, st) e))) = e
   \<and> length (launchHistory (fst (addToLaunchHistory (gl, st) e))) \<le> 50
   \<and> craftlauncher_launch_history (snd (addToLaunchHistory (gl, st) e))
       = Some (launchHistory (fst (addToLaunchHistory (gl, st) e)))
   \<and> getDownloadHistory (addToHistory st d date)
       = take 50 (historyEntry d date # getDownloadHistory st)
   \<and> hd (getDownloadHistory (addToHistory st d date)) = historyEntry d date
   \<and> length (getDownloadHistory (addToHistory st d date)) \<le> 50"
  by (simp add: addToLaunchHistory_def addToHistory_def getDownloadHistory_def keepLast50_take
      Let_def)

text \<open>
  C9. \<open>launchGame\<close> checks its preconditions before it changes anything: when the user is
  not authenticated, or the version is not marked installed, it throws (the
  authentication error first), the launcher and the stored history are as before, so no
  entry is added to the launch history and the game process handle is unchanged.
\<close>

theorem launchGame_preconditions:
  "\<not> isAuthenticated am \<or> \<not> isVersionInstalled vm versionId \<Longrightarrow>
   launchGame am vm env w versionId modLoader serverAddress =
     (Inl (if \<not> isAuthenticated am then Error ''User not authenticated''
           else Error (''Minecraft '' @ versionId @ '' is not installed'')), w)
   \<and> launchHistory (fst (snd (launchGame am vm env w versionId modLoader serverAddress)))
       = launchHistory (fst w)
   \<and> gameProcess (fst (snd (launchGame am vm env w versionId modLoader serverAddress)))
       = gameProcess (fst w)"
  by (auto simp: launchGame_def)

theorem launchGame_preconditions_witness:
  "\<not> isAuthenticated loggedOut
   \<and> launchGame loggedOut mockManager quietEnv freshLauncher ''1.20.4'' None None
       = (Inl (Error ''User not authenticated''), freshLauncher)
   \<and> isAuthenticated offlineSteve \<and> \<not> isVersionInstalled mockManager ''1.20.4''
   \<and> launchGame offlineSteve mockManager quietEnv freshLauncher ''1.20.4'' None None
       = (Inl (Error ''Minecraft 1.20.4 is not installed''), freshLauncher)"
proof -
  have a: "\<not> isAuthenticated loggedOut"
    by (simp add: isAuthenticated_def loggedOut_def)
  have b: "isAuthenticated offlineSteve"
    by (simp add: isAuthenticated_def offlineSteve_def)
  have c: "\<not> isVersionInstalled mockManager ''1.20.4''"
    by (simp add: isVersionInstalled_def mockManager_def)
  show ?thesis
    using a b c
      launchGame_preconditions [of loggedOut mockManager "''1.20.4''" quietEnv freshLauncher None None]
      launchGame_preconditions [of offlineSteve mockManager "''1.20.4''" quietEnv freshLauncher None None]
    by simp
qed

lemma retry_loop_trace:
  "1 \<le> a \<Longrightarrow> retry_loop fn m b a ws = (out, n, ws') \<Longrightarrow>
   (a \<le> m \<longrightarrow> a \<le> n \<and> n \<le> m) \<and> (m < a \<longrightarrow> n = a - 1)
   \<and> ws' = ws @ map (backoff b) [a..n - 1]"
proof (induction fn m b a ws rule: retry_loop.induct)
  case (1 fn m b a ws)
  note eq = retry_loop.simps [of fn m b a ws]
  show ?case
  proof (cases "a \<le> m")
    case False
    with "1.prems" eq show ?thesis
      by simp
  next
    case le: True
    show ?thesis
    proof (cases "fn a")
      case (Inr v)
      with le "1.prems" eq show ?thesis
        by simp
    next
      case (Inl e)
      show ?thesis
      proof (cases "a = m")
        case True
        with le Inl "1.prems" eq have "n = a" "ws' = ws"
          by simp_all
        with True show ?thesis
          by simp
      next
        case False
        with le Inl "1.prems" eq
        have r: "retry_loop fn m b (a + 1) (ws @ [b * 2 ^ nat (a - 1)]) = (out, n, ws')"
          by simp
        from "1.prems" have "1 \<le> a + 1" by simp
        from "1.IH" [OF le Inl False this r] le False
        have n: "a + 1 \<le> n" "n \<le> m"
          and w: "ws' = (ws @ [b * 2 ^ nat (a - 1)]) @ map (backoff b) [a + 1..n - 1]"
          by auto
        from n have "[a..n - 1] = a # [a + 1..n - 1]"
          by (simp add: upto_rec1)
        with w n le show ?thesis
          by (simp add: backoff_def)
      qed
    qed
  qed
qed

lemma retry_loop_all_fail:
  "1 \<le> a \<Longrightarrow> a \<le> m \<Longrightarrow> \<forall>k. a \<le> k \<and> k \<le> m \<longrightarrow> isl (fn k) \<Longrightarrow>
   fst (retry_loop fn m b a ws) = Inl (projl (fn m))
   \<and> fst (snd (retry_loop fn m b a ws)) = m"
proof (induction fn m b a ws rule: retry_loop.induct)
  case (1 fn m b a ws)
  note eq = retry_loop.simps [of fn m b a ws]
  from "1.prems" obtain e where e: "fn a = Inl e"
    by (cases "fn a") auto
  show ?case
  proof (cases "a = m")
    case True
    with e eq have "retry_loop fn m b a ws = (Inl e, a, ws)"
      by simp
    with True e show ?thesis
      by simp
  next
    case False
    with "1.prems" have "1 \<le> a + 1" "a + 1 \<le> m" "\<forall>k. a + 1 \<le> k \<and> k \<le> m \<longrightarrow> isl (fn k)"
      by auto
    from "1.IH" [OF "1.prems"(2) e False this] False e "1.prems"(2) eq show ?thesis
      by simp
  qed
qed

text \<open>
  C7 (amended). \<open>retry\<close> makes at most \<open>maxAttempts\<close> attempts, waits
  \<open>baseDelay * 2 ^ (attempt - 1)\<close> after each failed attempt but the last, with no cap on
  the delay, and when every attempt fails it rethrows the error of the last attempt after
  exactly \<open>maxAttempts\<close> attempts.
\<close>

theorem retry_bounded_exponential_uncapped:
  "retry_attempts (retry fn maxAttempts baseDelay) \<le> max 0 maxAttempts
   \<and> retry_waits (retry fn maxAttempts baseDelay) =
       map (\<lambda>attempt. baseDelay * 2 ^ nat (attempt - 1))
         [1..retry_attempts (retry fn maxAttempts baseDelay) - 1]
   \<and> (1 \<le> maxAttempts \<and> (\<forall>k. 1 \<le> k \<and> k \<le> maxAttempts \<longrightarrow> isl (fn k)) \<longrightarrow>
        retry_outcome (retry fn maxAttempts baseDelay) = Inl (projl (fn maxAttempts))
        \<and> retry_attempts (retry fn maxAttempts baseDelay) = maxAttempts)"
proof -
  obtain out n ws where r: "retry_loop fn maxAttempts baseDelay 1 [] = (out, n, ws)"
    by (cases "retry_loop fn maxAttempts baseDelay 1 []") auto
  from retry_loop_trace [OF _ r]
  have t: "(1 \<le> maxAttempts \<longrightarrow> 1 \<le> n \<and> n \<le> maxAttempts)"
    "(maxAttempts < 1 \<longrightarrow> n = 0)" "ws = map (backoff baseDelay) [1..n - 1]"
    by auto
  have a: "retry_attempts (retry fn maxAttempts baseDelay) \<le> max 0 maxAttempts"
    using t r by (cases "1 \<le> maxAttempts") (auto simp: retry_attempts_def retry_def)
  have b: "retry_waits (retry fn maxAttempts baseDelay) =
       map (\<lambda>attempt. baseDelay * 2 ^ nat (attempt - 1))
         [1..retry_attempts (retry fn maxAttempts baseDelay) - 1]"
    using t r by (simp add: retry_waits_def retry_attempts_def retry_def backoff_def [abs_def])
  have c: "retry_outcome (retry fn maxAttempts baseDelay) = Inl (projl (fn maxAttempts))
        \<and> retry_attempts (retry fn maxAttempts baseDelay) = maxAttempts"
    if "1 \<le> maxAttempts" "\<forall>k. 1 \<le> k \<and> k \<le> maxAttempts \<longrightarrow> isl (fn k)"
    using retry_loop_all_fail [OF _ that, of baseDelay "[]"]
    by (simp add: retry_outcome_def retry_attempts_def retry_def)
  from a b c show ?thesis by blast
qed

theorem retry_bounded_exponential_uncapped_witness:
  "1 \<le> (3 :: int) \<and> list_all (\<lambda>k. isl (alwaysFails k)) [1..3]
   \<and> retry_outcome (retry alwaysFails 3 1000) = Inl (Error ''Download failed: Network error'')
   \<and> retry_attempts (retry alwaysFails 3 1000) = 3
   \<and> retry_waits (retry alwaysFails 3 1000) = [1000, 2000]"
proof -
  have h: "\<forall>k. 1 \<le> k \<and> k \<le> 3 \<longrightarrow> isl (alwaysFails k)"
    by (simp add: alwaysFails_def)
  have u: "[1..(2::int)] = [1, 2]"
    by (simp add: upto_rec1)
  from h retry_bounded_exponential_uncapped [of alwaysFails 3 1000]
  have "retry_outcome (retry alwaysFails 3 1000) = Inl (projl (alwaysFails 3))"
    and "retry_attempts (retry alwaysFails 3 1000) = 3"
    and "retry_waits (retry alwaysFails 3 1000) =
       map (\<lambda>attempt. 1000 * 2 ^ nat (attempt - 1)) [1..retry_attempts (retry alwaysFails 3 1000) - 1]"
    by auto
  with h u show ?thesis
    by (simp add: alwaysFails_def list_all_iff)
qed

text \<open>
  No maximum delay exists: for a callback that always fails, whatever bound is proposed,
  some \<open>maxAttempts\<close> makes \<open>retry\<close> wait longer than the bound.
\<close>

theorem retry_cap_counterexample:
  "\<not> (\<exists>cap. \<forall>maxAttempts. \<forall>delay \<in> set (retry_waits (retry alwaysFails maxAttempts 1000)).
         delay \<le> cap)"
proof
  assume "\<exists>cap. \<forall>maxAttempts. \<forall>delay \<in> set (retry_waits (retry alwaysFails maxAttempts 1000)).
            delay \<le> cap"
  then obtain cap where cap:
    "\<And>maxAttempts delay. delay \<in> set (retry_waits (retry alwaysFails maxAttempts 1000))
       \<Longrightarrow> delay \<le> cap"
    by blast
  define m where "m = int (nat cap) + 2"
  have m: "1 \<le> m" "2 \<le> m"
    by (simp_all add: m_def)
  obtain out n ws where r: "retry_loop alwaysFails m 1000 1 [] = (out, n, ws)"
    by (cases "retry_loop alwaysFails m 1000 1 [] :: (js_error + unit option) \<times> int \<times> int list") auto
  have "\<forall>k. 1 \<le> k \<and> k \<le> m \<longrightarrow> isl (alwaysFails k)"
    by (simp add: alwaysFails_def)
  from retry_loop_all_fail [OF _ m(1) this, of 1000 "[]"] r have n: "n = m"
    by simp
  from retry_loop_trace [OF _ r] n have ws: "ws = map (backoff 1000) [1..m - 1]"
    by simp
  from m have "m - 1 \<in> set [1..m - 1]"
    by simp
  with ws have "backoff 1000 (m - 1) \<in> set ws"
    by simp
  with r have "backoff 1000 (m - 1) \<in> set (retry_waits (retry alwaysFails m 1000))"
    by (simp add: retry_waits_def retry_def)
  then have le: "backoff 1000 (m - 1) \<le> cap"
    by (rule cap)
  have "cap \<le> int (nat cap)"
    by simp
  also have "int (nat cap) < 2 ^ nat cap"
    by (rule of_nat_less_two_power)
  also have "(2 :: int) ^ nat cap \<le> 1000 * 2 ^ nat cap"
    by simp
  also have "nat cap = nat (m - 1 - 1)"
    by (simp add: m_def)
  finally have "cap < backoff 1000 (m - 1)"
    by (simp add: backoff_def)
  with le show False by simp
qed


lemma downloadFile_ok:
  "snd (transport url) \<Longrightarrow>
   downloadFile dm transport url filename =
     (Inr (finishedDownload transport ''completed'' (url, filename)),
      afterTransfers transport dm [(url, filename)])"
  by (simp add: downloadFile_def afterTransfers_def finishedDownload_def Let_def)

lemma downloadFile_fails:
  "\<not> snd (transport url) \<Longrightarrow>
   downloadFile dm transport url filename =
     (Inl (Error ''Download failed: Network error''),
      dm\<lparr>downloads := downloads dm @ [finishedDownload transport ''failed'' (url, filename)]\<rparr>)"
  by (simp add: downloadFile_def finishedDownload_def Let_def)

lemma afterTransfers_Cons:
  "afterTransfers transport (afterTransfers transport dm [y]) done
   = afterTransfers transport dm (y # done)"
  by (simp add: afterTransfers_def add.assoc)

lemma afterTransfers_Nil: "afterTransfers transport dm [] = dm"
  by (simp add: afterTransfers_def)

lemma downloadLibraries_first_failure:
  "map artifactTransfer (List.map_filter library_downloads_artifact libs) = pre @ x # post \<Longrightarrow>
   \<forall>y \<in> set pre. snd (transport (fst y)) \<Longrightarrow> \<not> snd (transport (fst x)) \<Longrightarrow>
   downloadLibraries transport libs dm =
     (Inl (Error ''Download failed: Network error''),
      (afterTransfers transport dm pre)
        \<lparr>downloads := downloads (afterTransfers transport dm pre)
                        @ [finishedDownload transport ''failed'' x]\<rparr>)"
proof (induction libs arbitrary: pre dm)
  case Nil
  then show ?case by (simp add: List.map_filter_simps)
next
  case (Cons lib libs)
  show ?case
  proof (cases "library_downloads_artifact lib")
    case None
    with Cons.prems have "map artifactTransfer (List.map_filter library_downloads_artifact libs) = pre @ x # post"
      by (simp add: List.map_filter_simps)
    from Cons.IH [OF this Cons.prems(2,3)] None show ?thesis
      by simp
  next
    case (Some a)
    with Cons.prems(1)
    have eq: "artifactTransfer a # map artifactTransfer (List.map_filter library_downloads_artifact libs)
              = pre @ x # post"
      by (simp add: List.map_filter_simps)
    show ?thesis
    proof (cases pre)
      case Nil
      with eq have "x = artifactTransfer a"
        by simp
      with Cons.prems(3) have "\<not> snd (transport (artifact_url a))"
        by (simp add: artifactTransfer_def)
      then show ?thesis
        using Some Nil \<open>x = artifactTransfer a\<close>
        by (simp add: downloadFile_fails afterTransfers_Nil artifactTransfer_def)
    next
      case (Cons y pre')
      with eq have y: "y = artifactTransfer a"
        and rest: "map artifactTransfer (List.map_filter library_downloads_artifact libs) = pre' @ x # post"
        by simp_all
      from Cons.prems(2) Cons y have ok: "snd (transport (artifact_url a))"
        by (simp add: artifactTransfer_def)
      from Cons.prems(2) Cons have "\<forall>y \<in> set pre'. snd (transport (fst y))"
        by simp
      from Cons.IH [OF rest this Cons.prems(3)] Some ok Cons y show ?thesis
        by (simp add: downloadFile_ok afterTransfers_Cons artifactTransfer_def)
    qed
  qed
qed


lemma transferList_alt:
  "transferList versionId d =
     (client_url (details_downloads_client d), versionId @ ''.jar'')
     # map artifactTransfer (List.map_filter library_downloads_artifact (details_libraries d))"
  by (simp add: transferList_def artifactTransfer_def [abs_def])

lemma downloadVersion_first_failure:
  assumes d: "getVersionDetails vm random versionId = Inr d"
    and split: "transferList versionId d = pre @ x # post"
    and ok: "\<forall>y \<in> set pre. snd (transport (fst y))"
    and fails: "\<not> snd (transport (fst x))"
  shows "downloadVersion dm vm transport random versionId modLoader =
     (Some (Inl (Error ''Download failed: Network error'')),
      (afterTransfers transport dm pre)
        \<lparr>downloads := downloads (afterTransfers transport dm pre)
                        @ [finishedDownload transport ''failed'' x]\<rparr>,
      vm)"
proof (cases pre)
  case Nil
  with split have "x = (client_url (details_downloads_client d), versionId @ ''.jar'')"
    by (simp add: transferList_alt)
  with fails d Nil show ?thesis
    by (simp add: downloadVersion_def downloadFile_fails afterTransfers_Nil)
next
  case (Cons y pre')
  with split have y: "y = (client_url (details_downloads_client d), versionId @ ''.jar'')"
    and rest: "map artifactTransfer (List.map_filter library_downloads_artifact (details_libraries d))
               = pre' @ x # post"
    by (simp_all add: transferList_alt)
  from ok Cons y have c: "snd (transport (client_url (details_downloads_client d)))"
    by simp
  from ok Cons have "\<forall>y \<in> set pre'. snd (transport (fst y))"
    by simp
  from downloadLibraries_first_failure [OF rest this fails] d c Cons y show ?thesis
    by (simp add: downloadVersion_def downloadFile_ok afterTransfers_Cons)
qed

text \<open>
  C3 (amended). Download failures are not isolated per artifact: \<open>downloadVersion\<close>
  transfers the client binary and then the library artifacts one at a time, in manifest
  order, and stops at the first transfer that fails. When one artifact fails and all the
  artifacts before it succeed (in particular when exactly one artifact fails), the
  artifacts before it are completed, the failing one ends as failed, none of the later
  ones is started, the error is rethrown (there is no partial-failure outcome), and the
  version is not marked installed.
\<close>

theorem downloadVersion_stops_at_first_failure:
  "getVersionDetails vm random versionId = Inr d \<Longrightarrow>
   transferList versionId d = pre @ x # post \<Longrightarrow>
   \<forall>y \<in> set pre. snd (transport (fst y)) \<Longrightarrow>
   \<not> snd (transport (fst x)) \<Longrightarrow>
   fst (downloadVersion dm vm transport random versionId modLoader)
     = Some (Inl (Error ''Download failed: Network error''))
   \<and> downloads (fst (snd (downloadVersion dm vm transport random versionId modLoader)))
     = downloads dm @ map (finishedDownload transport ''completed'') pre
       @ [finishedDownload transport ''failed'' x]
   \<and> stats_totalFiles (fst (snd (downloadVersion dm vm transport random versionId modLoader)))
     = stats_totalFiles dm + int (length pre)
   \<and> snd (snd (downloadVersion dm vm transport random versionId modLoader)) = vm"
  by (simp add: downloadVersion_first_failure afterTransfers_def)

lemma downloadLibraries_all_succeed:
  "\<forall>y \<in> set (map artifactTransfer (List.map_filter library_downloads_artifact libs)).
      snd (transport (fst y)) \<Longrightarrow>
   downloadLibraries transport libs dm =
     (Inr (), afterTransfers transport dm
                (map artifactTransfer (List.map_filter library_downloads_artifact libs)))"
proof (induction libs arbitrary: dm)
  case Nil
  show ?case by (simp add: List.map_filter_simps afterTransfers_Nil)
next
  case (Cons lib libs)
  show ?case
  proof (cases "library_downloads_artifact lib")
    case None
    with Cons show ?thesis
      by (simp add: List.map_filter_simps)
  next
    case (Some a)
    with Cons.prems have ok: "snd (transport (artifact_url a))"
      and rest: "\<forall>y \<in> set (map artifactTransfer (List.map_filter library_downloads_artifact libs)).
                   snd (transport (fst y))"
      by (simp_all add: List.map_filter_simps artifactTransfer_def)
    from Cons.IH [OF rest] Some ok show ?thesis
      by (simp add: List.map_filter_simps downloadFile_ok afterTransfers_Cons artifactTransfer_def)
  qed
qed

lemma downloadAssets_resolves:
  "assetIndex_totalSize assetIndex = 234567890 \<Longrightarrow> downloadAssets assetIndex = Some 201"
proof -
  have "chunkTicks 234567890 (234567890 div 200) 0 = Some 201"
    by code_simp
  then show "assetIndex_totalSize assetIndex = 234567890 \<Longrightarrow> downloadAssets assetIndex = Some 201"
    by (simp add: downloadAssets_def)
qed

lemma downloadVersion_all_succeed:
  assumes v: "getVersionById vm versionId \<noteq> None"
    and d: "getVersionDetails vm random versionId = Inr d"
    and ok: "\<forall>y \<in> set (transferList versionId d). snd (transport (fst y))"
  shows "downloadVersion dm vm transport random versionId None =
     (Some (Inr True), afterTransfers transport dm (transferList versionId d),
      markVersionInstalled vm versionId)"
proof -
  from v obtain ver where "getVersionById vm versionId = Some ver"
    by auto
  with d have "assetIndex_totalSize (details_assetIndex d) = 234567890"
    by (auto simp: getVersionDetails_def)
  then have a: "downloadAssets (details_assetIndex d) = Some 201"
    by (rule downloadAssets_resolves)
  from ok have c: "snd (transport (client_url (details_downloads_client d)))"
    and l: "\<forall>y \<in> set (map artifactTransfer
               (List.map_filter library_downloads_artifact (details_libraries d))).
              snd (transport (fst y))"
    by (simp_all add: transferList_alt)
  show ?thesis
    using d c a
    by (simp add: downloadVersion_def downloadFile_ok downloadLibraries_all_succeed [OF l]
        finishDownload_def truthy_def afterTransfers_Cons transferList_alt)
qed


lemma urls_getMockLibraries:
  "map artifactTransfer (List.map_filter library_downloads_artifact (getMockLibraries random versionId))
   = map (\<lambda>lib. (''https://libraries.minecraft.net/'' @ replaceColons lib @ ''.jar'',
                 replaceColons lib @ ''.jar'')) baseLibraries"
proof -
  have "List.map_filter library_downloads_artifact (map f xs) = map (the \<circ> library_downloads_artifact \<circ> f) xs"
    if "\<forall>x \<in> set xs. library_downloads_artifact (f x) \<noteq> None" for f :: "'a \<Rightarrow> library" and xs
    using that by (induction xs) (auto simp: List.map_filter_simps)
  note mf = this
  have "List.map_filter library_downloads_artifact (getMockLibraries random versionId)
        = map (the \<circ> library_downloads_artifact \<circ> (\<lambda>(i, lib). mockLibrary versionId (random i) lib))
            (enumerate 0 baseLibraries)"
    unfolding getMockLibraries_def
    by (rule mf) (auto simp: mockLibrary_def)
  then have "map artifactTransfer (List.map_filter library_downloads_artifact (getMockLibraries random versionId))
        = map (\<lambda>p. (''https://libraries.minecraft.net/'' @ replaceColons (snd p) @ ''.jar'',
                     replaceColons (snd p) @ ''.jar'')) (enumerate 0 baseLibraries)"
    by (simp add: artifactTransfer_def mockLibrary_def case_prod_beta comp_def)
  also have "\<dots> = map (\<lambda>lib. (''https://libraries.minecraft.net/'' @ replaceColons lib @ ''.jar'',
                 replaceColons lib @ ''.jar'')) (map snd (enumerate 0 baseLibraries))"
    by (simp only: map_map comp_def)
  finally show ?thesis
    by (simp only: map_snd_enumerate)
qed

lemma transferList_demo:
  "transferList ''1.20.4'' demoDetails =
     (''https://piston-data.mojang.com/v1/objects/mno345/client.jar'', ''1.20.4.jar'')
     # map (\<lambda>lib. (''https://libraries.minecraft.net/'' @ replaceColons lib @ ''.jar'',
                   replaceColons lib @ ''.jar'')) baseLibraries"
proof -
  have v: "getVersionById mockManager ''1.20.4'' = Some (mkVersion ''1.20.4'' ''release'' ''2023-12-07T12:56:18+00:00'' ''2023-12-07T12:56:18+00:00'' ''mno345'' 1)"
    by (simp add: getVersionById_def mockManager_def getMockVersions_def mkVersion_def)
  have i: "version_id (mkVersion ''1.20.4'' ''release'' ''2023-12-07T12:56:18+00:00'' ''2023-12-07T12:56:18+00:00'' ''mno345'' 1) = ''1.20.4''"
    and h: "version_sha1 (mkVersion ''1.20.4'' ''release'' ''2023-12-07T12:56:18+00:00'' ''2023-12-07T12:56:18+00:00'' ''mno345'' 1) = ''mno345''"
    by (simp_all add: mkVersion_def)
  show ?thesis
    by (simp add: transferList_alt demoDetails_def getVersionDetails_def v i h
        urls_getMockLibraries)
qed


lemma transferList_demo_split:
  "transferList ''1.20.4'' demoDetails = [clientTransfer] @ loggingTransfer # otherTransfers"
  by (simp add: transferList_demo clientTransfer_def loggingTransfer_def otherTransfers_def
      baseLibraries_def replaceColons_def)

lemma otherTransfers_succeed: "\<forall>y \<in> set otherTransfers. snd (failingTransport (fst y))"
  by (simp add: otherTransfers_def baseLibraries_def replaceColons_def failingTransport_def)

lemma clientTransfer_succeeds: "\<forall>y \<in> set [clientTransfer]. snd (failingTransport (fst y))"
  by (simp add: clientTransfer_def failingTransport_def)

lemma loggingTransfer_fails: "\<not> snd (failingTransport (fst loggingTransfer))"
  by (simp add: loggingTransfer_def failingTransport_def)

theorem downloadVersion_stops_at_first_failure_witness:
  "getVersionDetails mockManager (\<lambda>_. 0) ''1.20.4'' = Inr demoDetails
   \<and> transferList ''1.20.4'' demoDetails = [clientTransfer] @ loggingTransfer # otherTransfers
   \<and> snd (failingTransport (fst clientTransfer))
   \<and> \<not> snd (failingTransport (fst loggingTransfer))
   \<and> fst (downloadVersion freshManager mockManager failingTransport (\<lambda>_. 0) ''1.20.4'' None)
       = Some (Inl (Error ''Download failed: Network error''))
   \<and> downloads (fst (snd (downloadVersion freshManager mockManager failingTransport (\<lambda>_. 0)
         ''1.20.4'' None)))
       = [finishedDownload failingTransport ''completed'' clientTransfer,
          finishedDownload failingTransport ''failed'' loggingTransfer]
   \<and> stats_totalFiles (fst (snd (downloadVersion freshManager mockManager failingTransport
         (\<lambda>_. 0) ''1.20.4'' None))) = 1
   \<and> snd (snd (downloadVersion freshManager mockManager failingTransport (\<lambda>_. 0) ''1.20.4'' None))
       = mockManager"
  using demoDetails_resolved transferList_demo_split clientTransfer_succeeds loggingTransfer_fails
    downloadVersion_stops_at_first_failure [OF demoDetails_resolved transferList_demo_split
      clientTransfer_succeeds loggingTransfer_fails, of freshManager None]
  by (simp add: freshManager_def)

text \<open>
  Version 1.20.4 has 15 transfers; the transport fails for the first library only. The
  batch is rejected with the network error after the client binary alone has completed:
  the 13 libraries after the failing one are never requested.
\<close>

theorem downloadVersion_isolation_counterexample:
  "filter (\<lambda>y. \<not> snd (failingTransport (fst y))) (transferList ''1.20.4'' demoDetails)
     = [loggingTransfer]
   \<and> length (transferList ''1.20.4'' demoDetails) = 15
   \<and> fst (downloadVersion freshManager mockManager failingTransport (\<lambda>_. 0) ''1.20.4'' None)
       = Some (Inl (Error ''Download failed: Network error''))
   \<and> map download_filename (filter (\<lambda>d. download_status d = ''completed'')
        (downloads (fst (snd (downloadVersion freshManager mockManager failingTransport (\<lambda>_. 0)
           ''1.20.4'' None)))))
       = [''1.20.4.jar'']
   \<and> length (downloads (fst (snd (downloadVersion freshManager mockManager failingTransport
        (\<lambda>_. 0) ''1.20.4'' None)))) = 2
   \<and> \<not> isVersionInstalled (snd (snd (downloadVersion freshManager mockManager failingTransport
        (\<lambda>_. 0) ''1.20.4'' None))) ''1.20.4''"
proof -
  have one: "filter (\<lambda>y. \<not> snd (failingTransport (fst y))) (transferList ''1.20.4'' demoDetails)
     = [loggingTransfer]"
    using otherTransfers_succeed clientTransfer_succeeds loggingTransfer_fails
    by (simp add: transferList_demo_split)
  have len: "length (transferList ''1.20.4'' demoDetails) = 15"
    by (simp add: transferList_demo baseLibraries_def)
  note run = downloadVersion_first_failure [OF demoDetails_resolved transferList_demo_split
      clientTransfer_succeeds loggingTransfer_fails, of freshManager None]
  show ?thesis
    by (simp add: one len run,
        simp add: afterTransfers_def freshManager_def finishedDownload_def
          clientTransfer_def isVersionInstalled_def mockManager_def)
qed


end
